theory Spec2Isabelle
  imports Complex_Main "HOL-Library.Char_ord" "HOL-Library.List_Lexorder"
begin

section \<open>Python values used by the comparison engine\<close>

text \<open>
  A Python \<open>float\<close> is a finite number, one of the two infinities, or not-a-number.
  A finite float is held as the real number it stands for; comparisons of finite floats
  are exact, and the arithmetic of the comparator rounds its result to a double.
\<close>

datatype pyfloat = Fin real | PInf | NInf | NaN

datatype error = ValueError string | TypeError string | OverflowError string
  | FileNotFoundError string | PermissionError string | KeyError string

datatype pyval = PyStr string | PyFloat pyfloat | PyNone

text \<open>\<open>pd.isna\<close> on a float.\<close>

fun is_nan :: "pyfloat \<Rightarrow> bool" where
  "is_nan NaN = True"
| "is_nan _ = False"

text \<open>The comparisons \<open><=\<close>, \<open><\<close> and \<open>==\<close> of floats: every comparison with NaN is false.\<close>

fun fle :: "pyfloat \<Rightarrow> pyfloat \<Rightarrow> bool" where
  "fle NaN _ = False"
| "fle _ NaN = False"
| "fle NInf _ = True"
| "fle _ PInf = True"
| "fle (Fin a) (Fin b) = (a \<le> b)"
| "fle PInf _ = False"
| "fle (Fin a) NInf = False"

fun flt :: "pyfloat \<Rightarrow> pyfloat \<Rightarrow> bool" where
  "flt NaN _ = False"
| "flt _ NaN = False"
| "flt PInf _ = False"
| "flt _ NInf = False"
| "flt (Fin a) (Fin b) = (a < b)"
| "flt NInf _ = True"
| "flt (Fin a) PInf = True"

fun feq :: "pyfloat \<Rightarrow> pyfloat \<Rightarrow> bool" where
  "feq NaN _ = False"
| "feq _ NaN = False"
| "feq x y = (x = y)"

text \<open>
  Rounding to the nearest double, ties to even. For \<open>x\<close> other than zero the exponent
  \<open>e\<close> is the one with \<open>2^e \<le> |x| < 2^(e+1)\<close>, kept between \<open>-1022\<close> (below it the
  doubles are subnormal) and \<open>1023\<close>; the doubles near \<open>x\<close> are the multiples of
  \<open>2^(e-52)\<close>. A result of magnitude \<open>2^1024\<close> overflows to an infinity. The exponent is
  searched downwards from \<open>1023\<close>. The sign of a zero is not modelled.
\<close>

fun exponent_search :: "nat \<Rightarrow> int \<Rightarrow> real \<Rightarrow> int" where
  "exponent_search 0 e x = e"
| "exponent_search (Suc n) e x =
     (if 2 powi e \<le> x then e else exponent_search n (e - 1) x)"

definition double_exponent :: "real \<Rightarrow> int" where
  "double_exponent x = exponent_search 2045 1023 \<bar>x\<bar>"

definition round_half_even :: "real \<Rightarrow> int" where
  "round_half_even x =
     (let f = \<lfloor>x\<rfloor>; d = x - of_int f
      in if d < 1 / 2 then f
         else if 1 / 2 < d then f + 1
         else if even f then f else f + 1)"

definition to_double :: "real \<Rightarrow> pyfloat" where
  "to_double x =
     (if x = 0 then Fin 0
      else
        (let quantum = 2 powi (double_exponent x - 52);
             y = of_int (round_half_even (x / quantum)) * quantum
         in if 2 powi 1024 \<le> \<bar>y\<bar> then (if 0 < x then PInf else NInf) else Fin y))"

text \<open>
  Float arithmetic as far as the deviation formula needs it: on finite operands the
  result of \<open>-\<close>, \<open>*\<close> and \<open>/\<close> is the exact result rounded to the nearest double. Division
  is only called behind the source's guard \<open>q != 0\<close>, so the divisor is never zero.
\<close>

fun fneg :: "pyfloat \<Rightarrow> pyfloat" where
  "fneg (Fin a) = Fin (- a)"
| "fneg PInf = NInf"
| "fneg NInf = PInf"
| "fneg NaN = NaN"

fun fabs :: "pyfloat \<Rightarrow> pyfloat" where
  "fabs (Fin a) = Fin \<bar>a\<bar>"
| "fabs PInf = PInf"
| "fabs NInf = PInf"
| "fabs NaN = NaN"

fun fsub :: "pyfloat \<Rightarrow> pyfloat \<Rightarrow> pyfloat" where
  "fsub NaN _ = NaN"
| "fsub _ NaN = NaN"
| "fsub (Fin a) (Fin b) = to_double (a - b)"
| "fsub PInf PInf = NaN"
| "fsub NInf NInf = NaN"
| "fsub PInf _ = PInf"
| "fsub NInf _ = NInf"
| "fsub (Fin a) y = fneg y"

fun fsign_inf :: "bool \<Rightarrow> pyfloat" where
  "fsign_inf positive = (if positive then PInf else NInf)"

fun fmul :: "pyfloat \<Rightarrow> pyfloat \<Rightarrow> pyfloat" where
  "fmul NaN _ = NaN"
| "fmul _ NaN = NaN"
| "fmul (Fin a) (Fin b) = to_double (a * b)"
| "fmul (Fin a) y = (if a = 0 then NaN else fsign_inf ((0 < a) = (y = PInf)))"
| "fmul x (Fin b) = (if b = 0 then NaN else fsign_inf ((0 < b) = (x = PInf)))"
| "fmul x y = fsign_inf (x = y)"

fun fdiv :: "pyfloat \<Rightarrow> pyfloat \<Rightarrow> pyfloat" where
  "fdiv NaN _ = NaN"
| "fdiv _ NaN = NaN"
| "fdiv (Fin a) (Fin b) = to_double (a / b)"
| "fdiv (Fin a) y = Fin 0"
| "fdiv x (Fin b) = fsign_inf ((0 < b) = (x = PInf))"
| "fdiv x y = NaN"

text \<open>
  Python's \<open>round\<close> rounds half to even. With one argument it returns an \<open>int\<close> and
  raises on a float that is not finite. With \<open>ndigits = 2\<close> it rounds the exact value of
  the float to two decimals and returns the double nearest to that decimal; it passes NaN
  and the infinities through.
\<close>

definition round2 :: "real \<Rightarrow> real" where
  "round2 x = of_int (round_half_even (x * 100)) / 100"

fun py_round :: "pyfloat \<Rightarrow> error + int" where
  "py_round (Fin x) = Inr (round_half_even x)"
| "py_round NaN = Inl (ValueError ''cannot convert float NaN to integer'')"
| "py_round _ = Inl (OverflowError ''cannot convert float infinity to integer'')"

fun py_round2 :: "pyfloat \<Rightarrow> pyfloat" where
  "py_round2 (Fin x) = to_double (round2 x)"
| "py_round2 x = x"

text \<open>\<open>str.split\<close> with a one-character separator: the empty string gives one empty part.\<close>

fun split_on :: "char \<Rightarrow> string \<Rightarrow> string list" where
  "split_on c [] = [[]]"
| "split_on c (x # xs) =
     (if x = c then [] # split_on c xs
      else (case split_on c xs of
              [] \<Rightarrow> [[x]]
            | w # ws \<Rightarrow> (x # w) # ws))"

text \<open>
  \<open>float(s)\<close> on a string is a parameter \<open>f\<close> of the model: \<open>None\<close> stands for the
  \<open>ValueError\<close> of a string that is no number. The function \<open>float_of_literal\<close> is
  the fragment of \<open>float\<close> on plain decimal literals (an optional sign, digits, an
  optional fraction), whose value it rounds to the nearest double, and on the words \<open>nan\<close>
  and \<open>inf\<close>; it is used to run the model on concrete cells.
\<close>

definition digit_of :: "char \<Rightarrow> nat option" where
  "digit_of c =
     (let code = (of_char c :: nat)
      in if 48 \<le> code \<and> code \<le> 57 then Some (code - 48) else None)"

fun digits_value :: "nat \<Rightarrow> string \<Rightarrow> nat option" where
  "digits_value acc [] = Some acc"
| "digits_value acc (c # cs) =
     (case digit_of c of
        None \<Rightarrow> None
      | Some d \<Rightarrow> digits_value (10 * acc + d) cs)"

definition unsigned_literal :: "string \<Rightarrow> real option" where
  "unsigned_literal s =
     (case split_on (CHR ''.'') s of
        [ds] \<Rightarrow>
          (if ds = [] then None
           else map_option real (digits_value 0 ds))
      | [ds, fs] \<Rightarrow>
          (if ds = [] \<and> fs = [] then None
           else (case (digits_value 0 ds, digits_value 0 fs) of
                   (Some n, Some m) \<Rightarrow> Some (real n + real m / 10 ^ length fs)
                 | _ \<Rightarrow> None))
      | _ \<Rightarrow> None)"

definition float_of_literal :: "string \<Rightarrow> pyfloat option" where
  "float_of_literal s =
     (if s = ''nan'' then Some NaN
      else if s = ''inf'' then Some PInf
      else if s = ''-inf'' then Some NInf
      else (case s of
              [] \<Rightarrow> None
            | c # cs \<Rightarrow>
                (if c = CHR ''-'' then map_option (\<lambda>x. to_double (- x)) (unsigned_literal cs)
                 else if c = CHR ''+'' then map_option to_double (unsigned_literal cs)
                 else map_option to_double (unsigned_literal s))))"

section \<open>The metric comparator\<close>

text \<open>
  \<open>ForecastActualComparator\<close>: the positions of the point forecast and of the two
  bounds in the pipe-separated cell, and the number of fields expected.
\<close>

definition QUANTILE_POINT_IDX :: nat where "QUANTILE_POINT_IDX = 0"
definition QUANTILE_Q10_IDX :: nat where "QUANTILE_Q10_IDX = 1"
definition QUANTILE_Q90_IDX :: nat where "QUANTILE_Q90_IDX = 9"
definition EXPECTED_QUANTILE_COUNT :: nat where "EXPECTED_QUANTILE_COUNT = 10"

datatype warning = QuantileCountWarning nat nat

text \<open>
  The \<open>try\<close> block of \<open>_compare_metric\<close>: the three fields are converted in the order
  point, q10, q90; a field beyond the end of the cell is \<open>0.0\<close>; the first
  \<open>ValueError\<close> leaves the block, which skips the warning, and the handler sets all
  three values to \<open>0.0\<close>. The result is the three values and the warnings issued.
\<close>

definition field_at :: "(string \<Rightarrow> pyfloat option) \<Rightarrow> string list \<Rightarrow> nat \<Rightarrow> pyfloat option" where
  "field_at f parts i = (if i < length parts then f (parts ! i) else Some (Fin 0))"

definition parse_quantiles ::
  "(string \<Rightarrow> pyfloat option) \<Rightarrow> string \<Rightarrow> (pyfloat \<times> pyfloat \<times> pyfloat) \<times> warning list" where
  "parse_quantiles f forecast_value =
     (let forecast_parts = split_on (CHR ''|'') forecast_value
      in case field_at f forecast_parts QUANTILE_POINT_IDX of
           None \<Rightarrow> ((Fin 0, Fin 0, Fin 0), [])
         | Some point_forecast \<Rightarrow>
        (case field_at f forecast_parts QUANTILE_Q10_IDX of
           None \<Rightarrow> ((Fin 0, Fin 0, Fin 0), [])
         | Some q10v \<Rightarrow>
        (case field_at f forecast_parts QUANTILE_Q90_IDX of
           None \<Rightarrow> ((Fin 0, Fin 0, Fin 0), [])
         | Some q90v \<Rightarrow>
             ((point_forecast, q10v, q90v),
              (if length forecast_parts < EXPECTED_QUANTILE_COUNT
               then [QuantileCountWarning EXPECTED_QUANTILE_COUNT (length forecast_parts)]
               else [])))))"

text \<open>
  \<open>float(actual_value)\<close> inside its own \<open>try\<close>: a string that is no number
  (\<open>ValueError\<close>) and \<open>None\<close> (\<open>TypeError\<close>) give \<open>0.0\<close>.
\<close>

definition actual_to_float :: "(string \<Rightarrow> pyfloat option) \<Rightarrow> pyval \<Rightarrow> pyfloat" where
  "actual_to_float f actual_value =
     (case actual_value of
        PyFloat x \<Rightarrow> x
      | PyStr s \<Rightarrow> (case f s of Some x \<Rightarrow> x | None \<Rightarrow> Fin 0)
      | PyNone \<Rightarrow> Fin 0)"

text \<open>
  The deviation of a value outside the interval, relative to the bound \<open>q\<close> it missed by
  \<open>diff\<close>.
\<close>

definition deviation_of :: "pyfloat \<Rightarrow> pyfloat \<Rightarrow> pyfloat \<Rightarrow> pyfloat" where
  "deviation_of diff q actualv =
     (if \<not> feq q (Fin 0) then fmul (fdiv diff q) (Fin 100)
      else if \<not> feq actualv (Fin 0) then fmul (fabs actualv) (Fin 100)
      else Fin 0)"

text \<open>
  The status and the deviation, as the \<open>if\<close>/\<open>elif\<close> chain of \<open>_compare_metric\<close>
  sets them, starting from \<open>NO_FORECAST\<close> and \<open>0.0\<close>. The code names the statuses
  \<open>BELOW_P10\<close> and \<open>ABOVE_P90\<close>.
\<close>

definition classify :: "pyfloat \<Rightarrow> pyfloat \<Rightarrow> pyfloat \<Rightarrow> pyfloat \<Rightarrow> string \<times> pyfloat" where
  "classify point_forecast q10v q90v actualv =
     (if is_nan q10v \<or> is_nan q90v \<or> is_nan point_forecast then (''NO_FORECAST'', Fin 0)
      else if feq q10v (Fin 0) \<and> feq q90v (Fin 0) \<and> feq point_forecast (Fin 0)
        then (''NO_FORECAST'', Fin 0)
      else if fle q10v actualv \<and> fle actualv q90v then (''IN_RANGE'', Fin 0)
      else if flt actualv q10v
        then (''BELOW_P10'', deviation_of (fsub q10v actualv) q10v actualv)
      else if flt q90v actualv
        then (''ABOVE_P90'', deviation_of (fsub actualv q90v) q90v actualv)
      else (''NO_FORECAST'', Fin 0))"

record 'd result_row =
  date :: "'d option"
  metric :: string
  actual :: int
  forecast :: int
  q10 :: int
  q90 :: int
  status :: string
  deviation_pct :: pyfloat

text \<open>
  \<open>_compare_metric\<close>. The result dictionary is built field by field, so the first
  \<open>round\<close> that raises decides the error.
\<close>

definition compare_metric ::
  "(string \<Rightarrow> pyfloat option) \<Rightarrow> string \<Rightarrow> string \<Rightarrow> pyval \<Rightarrow> 'd option
     \<Rightarrow> error + 'd result_row" where
  "compare_metric f column forecast_value actual_value date_value =
     (case fst (parse_quantiles f forecast_value) of
        (point_forecast, q10v, q90v) \<Rightarrow>
          (let actualv = actual_to_float f actual_value;
               (st, dev) = classify point_forecast q10v q90v actualv
           in case py_round actualv of Inl e \<Rightarrow> Inl e | Inr ra \<Rightarrow>
             (case py_round point_forecast of Inl e \<Rightarrow> Inl e | Inr rp \<Rightarrow>
             (case py_round q10v of Inl e \<Rightarrow> Inl e | Inr rl \<Rightarrow>
             (case py_round q90v of Inl e \<Rightarrow> Inl e | Inr ru \<Rightarrow>
                Inr \<lparr>date = date_value, metric = column, actual = ra, forecast = rp,
                     q10 = rl, q90 = ru, status = st,
                     deviation_pct = py_round2 dev\<rparr>)))))"

definition compare_metric_warnings :: "(string \<Rightarrow> pyfloat option) \<Rightarrow> string \<Rightarrow> warning list" where
  "compare_metric_warnings f forecast_value = snd (parse_quantiles f forecast_value)"

section \<open>Tables\<close>

text \<open>
  A \<open>DataFrame\<close>: the column names in order, and the rows in order, each with its index
  label and its cells. A cell that is missing (\<open>NaN\<close>, \<open>None\<close>) in a table of strings is
  \<open>None\<close> of the row's map. \<open>df.empty\<close> holds when either axis has length 0.
\<close>

record 'c frame =
  df_columns :: "string list"
  df_rows :: "(nat \<times> (string \<rightharpoonup> 'c)) list"

definition df_empty :: "'c frame \<Rightarrow> bool" where
  "df_empty df = (df_columns df = [] \<or> df_rows df = [])"

text \<open>What a caller may pass where a \<open>DataFrame\<close> is expected; the string is the type's name.\<close>

datatype 'c pyobj = DataFrame "'c frame" | NotDataFrame string

section \<open>The anomaly filter\<close>

record anomaly_filter =
  exclude_no_forecast :: bool

definition AnomalyFilter_init :: "bool \<Rightarrow> anomaly_filter" where
  "AnomalyFilter_init flag = \<lparr>exclude_no_forecast = flag\<rparr>"

text \<open>\<open>results_df['status'].isin(['BELOW_P10', 'ABOVE_P90'])\<close> on one row.\<close>

definition status_isin_anomalies :: "(string \<rightharpoonup> pyval) \<Rightarrow> bool" where
  "status_isin_anomalies r =
     (r ''status'' = Some (PyStr ''BELOW_P10'') \<or> r ''status'' = Some (PyStr ''ABOVE_P90''))"

definition AnomalyFilter_process :: "anomaly_filter \<Rightarrow> pyval frame \<Rightarrow> pyval frame" where
  "AnomalyFilter_process self results_df =
     (if df_empty results_df \<or> ''status'' \<notin> set (df_columns results_df) then results_df
      else results_df\<lparr>df_rows := filter (\<lambda>(i, r). status_isin_anomalies r) (df_rows results_df)\<rparr>)"

section \<open>Input validation and the workflow\<close>

text \<open>\<open>ForecastActualComparator._validate_inputs\<close>: both type checks come before both emptiness checks.\<close>

definition validate_inputs :: "'a pyobj \<Rightarrow> 'b pyobj \<Rightarrow> error + ('a frame \<times> 'b frame)" where
  "validate_inputs forecast_df actual_df =
     (case forecast_df of
        NotDataFrame tn \<Rightarrow>
          Inl (TypeError (''Expected pandas DataFrame for forecast_df, got '' @ tn))
      | DataFrame fdf \<Rightarrow>
     (case actual_df of
        NotDataFrame tn \<Rightarrow>
          Inl (TypeError (''Expected pandas DataFrame for actual_df, got '' @ tn))
      | DataFrame adf \<Rightarrow>
          if df_empty fdf then Inl (ValueError ''Forecast DataFrame is empty'')
          else if df_empty adf then Inl (ValueError ''Actual DataFrame is empty'')
          else Inr (fdf, adf)))"

text \<open>
  \<open>AnomalyDetectionWorkflow._execute_detection\<close>. What the two readers load (\<open>None\<close> or
  a table), the filters and the detector are parameters; a filter or detector that
  raises returns \<open>Inl\<close>.
\<close>

fun apply_pre_filters ::
  "('a frame \<Rightarrow> 'b frame \<Rightarrow> error + ('a frame \<times> 'b frame)) list \<Rightarrow> 'a frame \<Rightarrow> 'b frame
     \<Rightarrow> error + ('a frame \<times> 'b frame)" where
  "apply_pre_filters [] forecast_df actual_df = Inr (forecast_df, actual_df)"
| "apply_pre_filters (pre_filter # rest) forecast_df actual_df =
     (case pre_filter forecast_df actual_df of
        Inl e \<Rightarrow> Inl e
      | Inr (fdf, adf) \<Rightarrow> apply_pre_filters rest fdf adf)"

fun apply_post_filters :: "('r frame \<Rightarrow> error + 'r frame) list \<Rightarrow> 'r frame \<Rightarrow> error + 'r frame" where
  "apply_post_filters [] anomaly_df = Inr anomaly_df"
| "apply_post_filters (post_filter # rest) anomaly_df =
     (case post_filter anomaly_df of
        Inl e \<Rightarrow> Inl e
      | Inr df \<Rightarrow> apply_post_filters rest df)"

definition execute_detection ::
  "'a frame option \<Rightarrow> 'b frame option
     \<Rightarrow> ('a frame \<Rightarrow> 'b frame \<Rightarrow> error + ('a frame \<times> 'b frame)) list
     \<Rightarrow> ('a frame \<Rightarrow> 'b frame \<Rightarrow> error + 'r frame option)
     \<Rightarrow> ('r frame \<Rightarrow> error + 'r frame) list
     \<Rightarrow> error + 'r frame" where
  "execute_detection forecast_loaded actual_loaded pre_filters detector post_filters =
     (let forecast_error = Inl (ValueError
            ''Forecast reader returned empty dataset. Cannot proceed with anomaly detection.'');
          actual_error = Inl (ValueError
            ''Actual reader returned empty dataset. Cannot proceed with anomaly detection.'');
          result_error = Inl (ValueError
            ''Anomaly detector returned empty results. Check your data and configuration.'')
      in case forecast_loaded of
           None \<Rightarrow> forecast_error
         | Some forecast_df \<Rightarrow>
             if df_empty forecast_df then forecast_error
             else (case actual_loaded of
                None \<Rightarrow> actual_error
              | Some actual_df \<Rightarrow>
                  if df_empty actual_df then actual_error
                  else (case apply_pre_filters pre_filters forecast_df actual_df of
                     Inl e \<Rightarrow> Inl e
                   | Inr (fdf, adf) \<Rightarrow>
                       (case detector fdf adf of
                          Inl e \<Rightarrow> Inl e
                        | Inr None \<Rightarrow> result_error
                        | Inr (Some anomaly_df) \<Rightarrow>
                            if df_empty anomaly_df then result_error
                            else apply_post_filters post_filters anomaly_df))))"

section \<open>The detection engine\<close>

text \<open>
  \<open>_standardize_columns\<close>: the columns of \<open>column_list\<close> that the table lacks are
  appended, filled with \<open>fill_value\<close>; then in every column of \<open>column_list\<close> a missing
  cell and the cell \<open>'None'\<close> are replaced by \<open>fill_value\<close>. The predicate \<open>is_missing\<close>
  says which present cells count as missing or as \<open>'None'\<close>.
\<close>

definition fill_cell :: "('c \<Rightarrow> bool) \<Rightarrow> 'c \<Rightarrow> 'c option \<Rightarrow> 'c" where
  "fill_cell is_missing fill_value cell =
     (case cell of
        None \<Rightarrow> fill_value
      | Some v \<Rightarrow> if is_missing v then fill_value else v)"

definition standardize_columns ::
  "('c \<Rightarrow> bool) \<Rightarrow> 'c frame \<Rightarrow> string list \<Rightarrow> 'c \<Rightarrow> 'c frame" where
  "standardize_columns is_missing df column_list fill_value =
     \<lparr>df_columns = df_columns df @ filter (\<lambda>col. col \<notin> set (df_columns df)) column_list,
      df_rows = map (\<lambda>(i, r).
                  (i, \<lambda>col. if col \<in> set column_list
                             then Some (fill_cell is_missing fill_value (r col))
                             else r col))
                (df_rows df)\<rparr>"

definition standardize_forecast_columns :: "string frame \<Rightarrow> string list \<Rightarrow> string frame" where
  "standardize_forecast_columns df column_list =
     standardize_columns (\<lambda>s. s = ''None'') df column_list ''0|0|0|0|0|0|0|0|0|0''"

definition standardize_actual_columns :: "pyval frame \<Rightarrow> string list \<Rightarrow> pyval frame" where
  "standardize_actual_columns df column_list =
     standardize_columns (\<lambda>v. v = PyNone \<or> v = PyFloat NaN \<or> v = PyStr ''None'')
       df column_list (PyFloat (Fin 0))"

text \<open>
  \<open>reset_index\<close> numbers the rows from 0. The pivot of the transformer is a parameter
  of the model; it is taken to deliver the time key as a column.
\<close>

definition reset_index :: "'c frame \<Rightarrow> 'c frame" where
  "reset_index df = df\<lparr>df_rows := zip [0..<length (df_rows df)] (map snd (df_rows df))\<rparr>"

definition prepare_data ::
  "(pyval frame \<Rightarrow> error + pyval frame) \<Rightarrow> string list \<Rightarrow> string frame \<Rightarrow> pyval frame
     \<Rightarrow> error + (string frame \<times> pyval frame \<times> string list)" where
  "prepare_data pivot_table excluded forecast_df actual_df =
     (case pivot_table actual_df of
        Inl e \<Rightarrow> Inl e
      | Inr pivoted \<Rightarrow>
          (let actual_pivot = reset_index pivoted;
               forecast_cols = filter (\<lambda>c. c \<notin> set excluded) (df_columns forecast_df);
               actual_cols = filter (\<lambda>c. c \<notin> set excluded) (df_columns actual_pivot);
               all_columns = sort (remdups (forecast_cols @ actual_cols))
           in Inr (standardize_forecast_columns forecast_df all_columns,
                   standardize_actual_columns actual_pivot all_columns,
                   all_columns)))"

text \<open>
  \<open>_compare_all_metrics\<close>: the outer loop runs over the forecast rows, the inner loop over
  \<open>all_columns\<close>. The actual row is looked up by the index label of the forecast row, and a
  forecast row whose label the actual table lacks is passed over. Reading a column that
  a row lacks is a \<open>KeyError\<close>. The model covers tables whose index labels are
  distinct, as loaded tables are: under a repeated label \<open>.loc\<close> hands back a table
  where the loop expects a row.
\<close>

fun compare_columns ::
  "(string \<Rightarrow> pyfloat option) \<Rightarrow> 'd option \<Rightarrow> (string \<rightharpoonup> string) \<Rightarrow> (string \<rightharpoonup> pyval)
     \<Rightarrow> string list \<Rightarrow> error + 'd result_row list" where
  "compare_columns f date_value forecast_row actual_row [] = Inr []"
| "compare_columns f date_value forecast_row actual_row (column # rest) =
     (case (forecast_row column, actual_row column) of
        (Some forecast_value, Some actual_value) \<Rightarrow>
          (case compare_metric f column forecast_value actual_value date_value of
             Inl e \<Rightarrow> Inl e
           | Inr result \<Rightarrow>
               (case compare_columns f date_value forecast_row actual_row rest of
                  Inl e \<Rightarrow> Inl e
                | Inr results \<Rightarrow> Inr (result # results)))
      | _ \<Rightarrow> Inl (KeyError column))"

fun compare_rows ::
  "(string \<Rightarrow> pyfloat option) \<Rightarrow> string \<Rightarrow> string list \<Rightarrow> (nat \<times> (string \<rightharpoonup> pyval)) list
     \<Rightarrow> string list \<Rightarrow> (nat \<times> (string \<rightharpoonup> string)) list
     \<Rightarrow> error + string option result_row list" where
  "compare_rows f date_col forecast_columns actual_rows all_columns [] = Inr []"
| "compare_rows f date_col forecast_columns actual_rows all_columns ((idx, forecast_row) # rest) =
     (let date_value = (if date_col \<in> set forecast_columns then Some (forecast_row date_col)
                        else None)
      in case map_of actual_rows idx of
           None \<Rightarrow> compare_rows f date_col forecast_columns actual_rows all_columns rest
         | Some actual_row \<Rightarrow>
             (case compare_columns f date_value forecast_row actual_row all_columns of
                Inl e \<Rightarrow> Inl e
              | Inr results \<Rightarrow>
                  (case compare_rows f date_col forecast_columns actual_rows all_columns rest of
                     Inl e \<Rightarrow> Inl e
                   | Inr later \<Rightarrow> Inr (results @ later))))"

definition compare_all_metrics ::
  "(string \<Rightarrow> pyfloat option) \<Rightarrow> string \<Rightarrow> string frame \<Rightarrow> pyval frame \<Rightarrow> string list
     \<Rightarrow> error + string option result_row list" where
  "compare_all_metrics f date_col forecast_std actual_std all_columns =
     compare_rows f date_col (df_columns forecast_std) (df_rows actual_std) all_columns
       (df_rows forecast_std)"

text \<open>
  The steps 1 to 3 of \<open>detect\<close>: validation, preparation and comparison. The value is the
  list \<open>results\<close>, before the post-processing that the configuration selects.
\<close>

definition detect_results ::
  "(string \<Rightarrow> pyfloat option) \<Rightarrow> (pyval frame \<Rightarrow> error + pyval frame) \<Rightarrow> string \<Rightarrow> string list
     \<Rightarrow> string pyobj \<Rightarrow> pyval pyobj \<Rightarrow> error + string option result_row list" where
  "detect_results f pivot_table date_col excluded forecast_df actual_df =
     (case validate_inputs forecast_df actual_df of
        Inl e \<Rightarrow> Inl e
      | Inr (fdf, adf) \<Rightarrow>
          (case prepare_data pivot_table excluded fdf adf of
             Inl e \<Rightarrow> Inl e
           | Inr (forecast_std, actual_std, all_columns) \<Rightarrow>
               compare_all_metrics f date_col forecast_std actual_std all_columns))"

text \<open>
  Step 4 of \<open>detect\<close>, \<open>pd.DataFrame(results)\<close>: every result dictionary is a row; its
  keys are \<open>date\<close> (when the row has a date value) and the seven keys of
  \<open>_compare_metric\<close>; the columns are the keys in the order of their first occurrence, and
  the rows are numbered from 0. The integer cells are held as floats.
\<close>

definition result_keys :: "string option result_row \<Rightarrow> string list" where
  "result_keys r =
     (case date r of None \<Rightarrow> [] | Some d \<Rightarrow> [''date''])
     @ [''metric'', ''actual'', ''forecast'', ''q10'', ''q90'', ''status'', ''deviation_pct'']"

definition result_cells :: "string option result_row \<Rightarrow> (string \<rightharpoonup> pyval)" where
  "result_cells r =
     (let cells = [''metric'' \<mapsto> PyStr (metric r),
                   ''actual'' \<mapsto> PyFloat (Fin (of_int (actual r))),
                   ''forecast'' \<mapsto> PyFloat (Fin (of_int (forecast r))),
                   ''q10'' \<mapsto> PyFloat (Fin (of_int (q10 r))),
                   ''q90'' \<mapsto> PyFloat (Fin (of_int (q90 r))),
                   ''status'' \<mapsto> PyStr (status r),
                   ''deviation_pct'' \<mapsto> PyFloat (deviation_pct r)]
      in case date r of
           None \<Rightarrow> cells
         | Some d \<Rightarrow> cells(''date'' \<mapsto> (case d of None \<Rightarrow> PyNone | Some s \<Rightarrow> PyStr s)))"

definition first_occurrences :: "'a list \<Rightarrow> 'a list" where
  "first_occurrences xs = rev (remdups (rev xs))"

definition result_frame :: "string option result_row list \<Rightarrow> pyval frame" where
  "result_frame results =
     \<lparr>df_columns = first_occurrences (concat (map result_keys results)),
      df_rows = zip [0..<length results] (map result_cells results)\<rparr>"

section \<open>The cumulative-volume selection\<close>

text \<open>
  \<open>cumsum\<close> of a series, and the position of the first \<open>True\<close> of a mask (\<open>idxmax\<close>).
  The ranking values, their sums and their shares of the total are exact numbers in this
  section: the rounding of the sums of pandas is not modelled.
\<close>

fun cumsum_from :: "real \<Rightarrow> real list \<Rightarrow> real list" where
  "cumsum_from acc [] = []"
| "cumsum_from acc (x # xs) = (acc + x) # cumsum_from (acc + x) xs"

definition cumsum :: "real list \<Rightarrow> real list" where
  "cumsum xs = cumsum_from 0 xs"

fun first_true :: "bool list \<Rightarrow> nat option" where
  "first_true [] = None"
| "first_true (b # bs) = (if b then Some 0 else map_option Suc (first_true bs))"

text \<open>
  \<open>sort_values(ascending=False)\<close> on a series of labelled values. Equal values are kept
  in their order of entry; pandas leaves their order open.
\<close>

definition sort_values_desc :: "('k \<times> real) list \<Rightarrow> ('k \<times> real) list" where
  "sort_values_desc series = sort_key (\<lambda>kv. - snd kv) series"

text \<open>
  \<open>CumulativeThresholdFilter.filter\<close> from the dictionary \<open>forecast_values\<close> (the summed
  point forecast of every metric column, in column order) to \<open>metrics_to_keep\<close>. \<open>None\<close>
  stands for the early returns that hand both tables back unchanged.
\<close>

definition metrics_to_keep :: "(string \<times> real) list \<Rightarrow> real \<Rightarrow> string list option" where
  "metrics_to_keep forecast_values threshold_pct =
     (if forecast_values = [] then None
      else
        (let value_series = sort_values_desc forecast_values;
             cumulative_sum = cumsum (map snd value_series);
             total_value = sum_list (map snd value_series)
         in if total_value = 0 then None
            else
              (let cumulative_pct = map (\<lambda>c. c / total_value) cumulative_sum;
                   kept = map (fst \<circ> fst)
                            (filter (\<lambda>(kv, pct). pct \<le> threshold_pct)
                               (zip value_series cumulative_pct))
               in Some (if kept = [] then (case value_series of [] \<Rightarrow> [] | kv # _ \<Rightarrow> [fst kv])
                        else kept))))"

text \<open>
  \<open>ForecastActualComparator._filter_cumulative_threshold\<close> on the rows of a table whose
  column \<open>value_column\<close> is read by \<open>value\<close>.
\<close>

definition filter_cumulative_threshold :: "('r \<Rightarrow> real) \<Rightarrow> 'r list \<Rightarrow> real \<Rightarrow> 'r list" where
  "filter_cumulative_threshold value rows threshold_pct =
     (if rows = [] then rows
      else
        (let total_value = sum_list (map value rows)
         in if total_value = 0 then rows
            else
              (let sorted_values = sort_key uminus (map value rows);
                   cumulative_sum = cumsum sorted_values;
                   cumulative_pct = map (\<lambda>c. c / total_value) cumulative_sum;
                   threshold_mask = map (\<lambda>pct. threshold_pct \<le> pct) cumulative_pct;
                   min_threshold =
                     (case first_true threshold_mask of
                        Some threshold_idx \<Rightarrow> min_list (take (Suc threshold_idx) sorted_values)
                      | None \<Rightarrow> min_list sorted_values)
               in filter (\<lambda>r. min_threshold \<le> value r) rows)))"

section \<open>Construction of the components\<close>

datatype tcols = ColumnName string | ColumnList "string list"

text \<open>A transformer, as far as the constructors look at it: its attribute \<open>columns\<close>, if it has one.\<close>

record transformer =
  t_columns :: "tcols option"

record cumulative_threshold_filter =
  ctf_transformer :: transformer
  ctf_threshold_pct :: pyfloat
  ctf_exclude_columns :: "string list"

text \<open>\<open>CumulativeThresholdFilter.__init__\<close>. The message ends with the number given.\<close>

definition CumulativeThresholdFilter_init ::
  "transformer \<Rightarrow> pyfloat \<Rightarrow> string list option \<Rightarrow> error + cumulative_threshold_filter" where
  "CumulativeThresholdFilter_init tr threshold_pct excluded =
     (if \<not> (flt (Fin 0) threshold_pct \<and> fle threshold_pct (Fin 1))
      then Inl (ValueError ''threshold_pct must be between 0 and 1, got'')
      else Inr \<lparr>ctf_transformer = tr, ctf_threshold_pct = threshold_pct,
                ctf_exclude_columns =
                  (case excluded of None \<Rightarrow> [''date''] | Some [] \<Rightarrow> [''date''] | Some cols \<Rightarrow> cols)\<rparr>)"

record comparator =
  cmp_transformer :: transformer
  cmp_date_column :: string
  cmp_exclude_columns :: "string list"
  cmp_dimension_names :: "string list option"
  cmp_cumulative_threshold :: "pyfloat option"
  cmp_return_only_anomalies :: bool
  cmp_min_deviation_threshold :: pyfloat
  cmp_format_deviation_as_string :: bool

text \<open>
  \<open>_validate_dimension_names\<close>: \<open>None\<close> when the check passes or is skipped. The message
  goes on to list both sides.
\<close>

definition validate_dimension_names :: "transformer \<Rightarrow> string list \<Rightarrow> error option" where
  "validate_dimension_names tr names =
     (case t_columns tr of
        None \<Rightarrow> None
      | Some tc \<Rightarrow>
          (let transformer_columns = (case tc of ColumnName c \<Rightarrow> [c] | ColumnList cs \<Rightarrow> cs)
           in if names \<noteq> transformer_columns
              then Some (ValueError
                ''dimension_names must match transformer.columns in the same order.'')
              else None))"

text \<open>\<open>ForecastActualComparator.__init__\<close>: the dimension names are the only argument checked.\<close>

definition ForecastActualComparator_init ::
  "transformer \<Rightarrow> string \<Rightarrow> string list option \<Rightarrow> string list option \<Rightarrow> pyfloat option
     \<Rightarrow> bool \<Rightarrow> pyfloat \<Rightarrow> bool \<Rightarrow> error + comparator" where
  "ForecastActualComparator_init tr date_col excluded names threshold only_anomalies
       min_deviation as_string =
     (let self = \<lparr>cmp_transformer = tr, cmp_date_column = date_col,
                  cmp_exclude_columns =
                    (case excluded of None \<Rightarrow> [date_col] | Some [] \<Rightarrow> [date_col]
                     | Some cols \<Rightarrow> cols),
                  cmp_dimension_names = names, cmp_cumulative_threshold = threshold,
                  cmp_return_only_anomalies = only_anomalies,
                  cmp_min_deviation_threshold = min_deviation,
                  cmp_format_deviation_as_string = as_string\<rparr>
      in case names of
           None \<Rightarrow> Inr self
         | Some ns \<Rightarrow>
             (case validate_dimension_names tr ns of
                Some e \<Rightarrow> Inl e
              | None \<Rightarrow> Inr self))"

text \<open>
  \<open>BigQueryDataWriter.__init__\<close>. The file system the path checks look at is a parameter.
  The messages that quote an argument end where the quotation starts. The transformer
  hooks of the writer are not part of the model.
\<close>

record filesystem =
  fs_abspath :: "string \<Rightarrow> string"
  fs_isfile :: "string \<Rightarrow> bool"
  fs_readable :: "string \<Rightarrow> bool"

record bigquery_writer =
  bq_service_account_file :: "string option"
  bq_project :: "string option"
  bq_dataset :: string
  bq_table :: string
  bq_create_disposition :: string
  bq_write_disposition :: string

definition VALID_CREATE_DISPOSITIONS :: "string list" where
  "VALID_CREATE_DISPOSITIONS = [''CREATE_IF_NEEDED'', ''CREATE_NEVER'']"

definition VALID_WRITE_DISPOSITIONS :: "string list" where
  "VALID_WRITE_DISPOSITIONS = [''WRITE_TRUNCATE'', ''WRITE_APPEND'', ''WRITE_EMPTY'']"

definition is_space :: "char \<Rightarrow> bool" where
  "is_space c = (c \<in> set [CHR '' '', CHR 0x09, CHR 0x0A, CHR 0x0B, CHR 0x0C, CHR 0x0D])"

definition ends_with :: "string \<Rightarrow> string \<Rightarrow> bool" where
  "ends_with s suffix = (length suffix \<le> length s \<and> drop (length s - length suffix) s = suffix)"

definition check_service_account_file :: "filesystem \<Rightarrow> string option \<Rightarrow> error + string option" where
  "check_service_account_file fs service_account_file =
     (case service_account_file of
        None \<Rightarrow> Inr None
      | Some path \<Rightarrow>
          if path = [] then Inr (Some path)
          else if list_all is_space path
            then Inl (ValueError ''service_account_file cannot be empty'')
          else
            (let abs_path = fs_abspath fs path
             in if \<not> fs_isfile fs abs_path
                  then Inl (FileNotFoundError ''Service account file not found: '')
                else if \<not> fs_readable fs abs_path
                  then Inl (PermissionError ''Service account file is not readable: '')
                else if \<not> ends_with abs_path ''.json''
                  then Inl (ValueError
                    ''Service account file must be a JSON file (.json extension)'')
                else Inr (Some abs_path)))"

definition BigQueryDataWriter_init ::
  "filesystem \<Rightarrow> string option \<Rightarrow> string option \<Rightarrow> string option \<Rightarrow> string option
     \<Rightarrow> string \<Rightarrow> string \<Rightarrow> error + bigquery_writer" where
  "BigQueryDataWriter_init fs service_account_file project dataset table
       create_disposition write_disposition =
     (case dataset of
        None \<Rightarrow> Inl (ValueError ''dataset parameter is required'')
      | Some ds \<Rightarrow>
     (case table of
        None \<Rightarrow> Inl (ValueError ''table parameter is required'')
      | Some tb \<Rightarrow>
          if create_disposition \<notin> set VALID_CREATE_DISPOSITIONS
            then Inl (ValueError ''Invalid create_disposition: '')
          else if write_disposition \<notin> set VALID_WRITE_DISPOSITIONS
            then Inl (ValueError ''Invalid write_disposition: '')
          else
            (case check_service_account_file fs service_account_file of
               Inl e \<Rightarrow> Inl e
             | Inr checked \<Rightarrow>
                 Inr \<lparr>bq_service_account_file = checked, bq_project = project,
                      bq_dataset = ds, bq_table = tb,
                      bq_create_disposition = create_disposition,
                      bq_write_disposition = write_disposition\<rparr>)))"

section \<open>Example tables\<close>

text \<open>
  A forecast table with the rows of two days, and a pivoted actual table with one row
  whose day is neither of them.
\<close>

definition example_forecast :: "string frame" where
  "example_forecast =
     \<lparr>df_columns = [''date'', ''m''],
      df_rows = [(0, [''date'' \<mapsto> ''2024-01-01'',
                      ''m'' \<mapsto> ''100|90|92|95|98|100|102|105|108|110'']),
                 (1, [''date'' \<mapsto> ''2024-01-02'',
                      ''m'' \<mapsto> ''200|180|184|190|196|200|204|210|216|220''])]\<rparr>"

definition example_actual :: "pyval frame" where
  "example_actual =
     \<lparr>df_columns = [''date'', ''m''],
      df_rows = [(0, [''date'' \<mapsto> PyStr ''2024-01-03'', ''m'' \<mapsto> PyFloat (Fin 95)])]\<rparr>"

text \<open>A list of results with one row of every status, and one row of no known status.\<close>

definition example_results :: "string option result_row list" where
  "example_results =
     [\<lparr>date = Some (Some ''2024-01-01''), metric = ''a'', actual = 950, forecast = 1000,
        q10 = 900, q90 = 1100, status = ''IN_RANGE'', deviation_pct = Fin 0\<rparr>,
      \<lparr>date = Some (Some ''2024-01-01''), metric = ''b'', actual = 450, forecast = 1000,
        q10 = 900, q90 = 1100, status = ''BELOW_P10'', deviation_pct = Fin 50\<rparr>,
      \<lparr>date = Some (Some ''2024-01-01''), metric = ''c'', actual = 7, forecast = 0,
        q10 = 0, q90 = 0, status = ''NO_FORECAST'', deviation_pct = Fin 0\<rparr>,
      \<lparr>date = Some (Some ''2024-01-01''), metric = ''d'', actual = 2200, forecast = 1000,
        q10 = 900, q90 = 1100, status = ''ABOVE_P90'', deviation_pct = Fin 100\<rparr>,
      \<lparr>date = Some (Some ''2024-01-01''), metric = ''e'', actual = 1, forecast = 1,
        q10 = 1, q90 = 1, status = ''UNKNOWN'', deviation_pct = Fin 0\<rparr>]"

section \<open>Properties of rounding to a double\<close>

lemma exponent_search_eq:
  assumes "2 powi e \<le> x" and "x < 2 powi (e + 1)" and "e \<le> e0" and "e0 - int n \<le> e"
  shows "exponent_search n e0 x = e"
  using assms(3,4)
proof (induction n arbitrary: e0)
  case 0
  then show ?case by simp
next
  case (Suc n)
  show ?case
  proof (cases "2 powi e0 \<le> x")
    case True
    have "e0 = e"
    proof (rule ccontr)
      assume "e0 \<noteq> e"
      with Suc.prems(1) have "e + 1 \<le> e0" by simp
      then have "(2 :: real) powi (e + 1) \<le> 2 powi e0" by (intro power_int_increasing) simp_all
      with True assms(2) show False by simp
    qed
    with True show ?thesis by simp
  next
    case False
    with assms(1) have "e0 \<noteq> e" by auto
    with Suc.prems have "e \<le> e0 - 1" "e0 - 1 - int n \<le> e" by simp_all
    from Suc.IH[OF this] False show ?thesis by simp
  qed
qed

lemma double_exponent_eq:
  assumes "2 powi e \<le> \<bar>x\<bar>" and "\<bar>x\<bar> < 2 powi (e + 1)" and "- 1022 \<le> e" and "e \<le> 1023"
  shows "double_exponent x = e"
  unfolding double_exponent_def using assms by (intro exponent_search_eq) simp_all

lemma to_double_zero: "to_double 0 = Fin 0"
  by (simp add: to_double_def)

lemma to_double_eval:
  assumes "2 powi e \<le> \<bar>x\<bar>" and "\<bar>x\<bar> < 2 powi (e + 1)" and "- 1022 \<le> e" and "e \<le> 1023"
  shows "to_double x =
           (let quantum = 2 powi (e - 52);
                y = of_int (round_half_even (x / quantum)) * quantum
            in if 2 powi 1024 \<le> \<bar>y\<bar> then (if 0 < x then PInf else NInf) else Fin y)"
proof -
  have "x \<noteq> 0"
  proof
    assume "x = 0"
    with assms(1) have "(2 :: real) powi e \<le> 0" by simp
    moreover have "(0 :: real) < 2 powi e" by simp
    ultimately show False by simp
  qed
  then show ?thesis by (simp add: to_double_def double_exponent_eq[OF assms])
qed

lemma round_half_even_of_int: "round_half_even (of_int n) = n"
  by (simp add: round_half_even_def)

lemma binary_exponent_exists:
  assumes "0 < (x :: real)"
  shows "\<exists>e. 2 powi e \<le> x \<and> x < 2 powi (e + 1)"
proof -
  define e where "e = \<lfloor>log 2 x\<rfloor>"
  have "2 powr real_of_int e \<le> x \<and> x < 2 powr real_of_int (e + 1)"
    using floor_log_eq_powr_iff[of x 2 e] assms by (simp add: e_def)
  then have "2 powi e \<le> x \<and> x < 2 powi (e + 1)"
    by (simp only: powr_real_of_int'[of 2, simplified])
  then show ?thesis by blast
qed

lemma to_double_of_int:
  assumes "\<bar>m\<bar> < 2 ^ 53"
  shows "to_double (of_int m) = Fin (of_int m)"
proof (cases "m = 0")
  case True
  then show ?thesis by (simp add: to_double_zero)
next
  case False
  let ?x = "of_int m :: real"
  have one: "1 \<le> \<bar>?x\<bar>" using False by (simp flip: of_int_abs)
  then have "0 < \<bar>?x\<bar>" by simp
  from binary_exponent_exists[OF this]
  obtain e where e: "2 powi e \<le> \<bar>?x\<bar>" "\<bar>?x\<bar> < 2 powi (e + 1)" by blast
  have lt: "\<bar>?x\<bar> < 2 ^ 53"
  proof -
    have "of_int \<bar>m\<bar> < (of_int (2 ^ 53) :: real)" using assms by (simp only: of_int_less_iff)
    then show ?thesis by simp
  qed
  have e_lo: "0 \<le> e"
  proof (rule ccontr)
    assume "\<not> 0 \<le> e"
    then have "e + 1 \<le> 0" by simp
    then have "(2 :: real) powi (e + 1) \<le> 2 powi 0" by (intro power_int_increasing) simp_all
    with e(2) one show False by simp
  qed
  have e_hi: "e \<le> 52"
  proof (rule ccontr)
    assume "\<not> e \<le> 52"
    then have "53 \<le> e" by simp
    then have "(2 :: real) powi 53 \<le> 2 powi e" by (intro power_int_increasing) simp_all
    with e(1) lt show False by simp
  qed
  define k where "k = nat (52 - e)"
  have q: "(2 :: real) powi (e - 52) = 1 / 2 ^ k"
    using e_hi by (simp add: k_def power_int_def field_simps)
  have quot: "?x / 2 powi (e - 52) = of_int (m * 2 ^ k)" by (simp add: q)
  have y: "of_int (round_half_even (?x / 2 powi (e - 52))) * 2 powi (e - 52) = ?x"
    by (simp only: quot round_half_even_of_int) (simp add: q)
  have "\<bar>?x\<bar> < 2 powi 1024" using lt by simp
  then have small: "\<not> 2 powi 1024 \<le> \<bar>?x\<bar>" by simp
  have "to_double ?x =
      (let quantum = 2 powi (e - 52);
           y = of_int (round_half_even (?x / quantum)) * quantum
       in if 2 powi 1024 \<le> \<bar>y\<bar> then (if 0 < ?x then PInf else NInf) else Fin y)"
    using e e_lo e_hi by (intro to_double_eval) simp_all
  then show ?thesis by (simp only: Let_def y small if_False)
qed

lemma to_double_numeral: "numeral k < (2 :: int) ^ 53 \<Longrightarrow> to_double (numeral k) = Fin (numeral k)"
  using to_double_of_int[of "numeral k"] by simp

lemma to_double_neg_numeral:
  "numeral k < (2 :: int) ^ 53 \<Longrightarrow> to_double (- numeral k) = Fin (- numeral k)"
  using to_double_of_int[of "- numeral k"] by simp

lemma to_double_one: "to_double 1 = Fin 1"
  using to_double_of_int[of 1] by simp

section \<open>Properties of the metric comparator\<close>

lemmas quantile_consts = QUANTILE_POINT_IDX_def QUANTILE_Q10_IDX_def QUANTILE_Q90_IDX_def
  EXPECTED_QUANTILE_COUNT_def

lemmas literal_defs = float_of_literal_def unsigned_literal_def digit_of_def
  to_double_zero to_double_one to_double_numeral

lemma round2_zero: "round2 0 = 0"
  by (simp add: round2_def round_half_even_def)

lemma py_round2_zero: "py_round2 (Fin 0) = Fin 0"
  by (simp add: round2_zero to_double_zero)


lemma split_on_nonempty: "split_on c s \<noteq> []"
  by (induction s) (auto split: list.splits)

lemma classify_finite:
  "classify (Fin p) (Fin l) (Fin u) (Fin a) =
     (if l = 0 \<and> u = 0 \<and> p = 0 then (''NO_FORECAST'', Fin 0)
      else if l \<le> a \<and> a \<le> u then (''IN_RANGE'', Fin 0)
      else if a < l then
        (''BELOW_P10'',
         if l \<noteq> 0 then fmul (fdiv (fsub (Fin l) (Fin a)) (Fin l)) (Fin 100)
         else if a \<noteq> 0 then fmul (Fin \<bar>a\<bar>) (Fin 100) else Fin 0)
      else
        (''ABOVE_P90'',
         if u \<noteq> 0 then fmul (fdiv (fsub (Fin a) (Fin u)) (Fin u)) (Fin 100)
         else if a \<noteq> 0 then fmul (Fin \<bar>a\<bar>) (Fin 100) else Fin 0))"
  by (auto simp: classify_def deviation_of_def)

lemma compare_metric_finite:
  assumes "fst (parse_quantiles f fv) = (Fin p, Fin l, Fin u)"
      and "actual_to_float f av = Fin a"
  shows "compare_metric f col fv av d =
           Inr \<lparr>date = d, metric = col, actual = round_half_even a,
                forecast = round_half_even p, q10 = round_half_even l,
                q90 = round_half_even u,
                status = fst (classify (Fin p) (Fin l) (Fin u) (Fin a)),
                deviation_pct = py_round2 (snd (classify (Fin p) (Fin l) (Fin u) (Fin a)))\<rparr>"
  using assms by (simp add: compare_metric_def Let_def split: prod.splits)

lemma py_round_Inr: "py_round x = Inr n \<Longrightarrow> \<exists>r. x = Fin r"
  by (cases x) auto

lemma compare_metric_row_finite:
  assumes "compare_metric f col fv av d = Inr r"
  shows "\<exists>p l u a. fst (parse_quantiles f fv) = (Fin p, Fin l, Fin u) \<and> actual_to_float f av = Fin a"
proof -
  obtain pt lo up where t: "fst (parse_quantiles f fv) = (pt, lo, up)"
    by (cases "fst (parse_quantiles f fv)") auto
  from assms t have "(\<exists>n. py_round (actual_to_float f av) = Inr n) \<and> (\<exists>n. py_round pt = Inr n)
      \<and> (\<exists>n. py_round lo = Inr n) \<and> (\<exists>n. py_round up = Inr n)"
    by (auto simp: compare_metric_def Let_def split: prod.splits sum.splits)
  then show ?thesis using t by (auto dest!: py_round_Inr)
qed

text \<open>
  Claim C1, as amended. Whenever the parsed triple and the actual value are finite numbers
  and the triple is not all zero, \<open>_compare_metric\<close> returns a row, and: a value inside
  the interval gives \<open>IN_RANGE\<close> with deviation 0; a value below a non-zero lower bound
  gives \<open>BELOW_P10\<close> with the deviation \<open>round((lower - actual) / lower * 100, 2)\<close>; a
  value above a non-zero upper bound that is not below the lower bound gives \<open>ABOVE_P90\<close>
  with the deviation \<open>round((actual - upper) / upper * 100, 2)\<close>. Both expressions are
  computed as the program computes them, every operation rounding to a double.
\<close>

theorem compare_metric_valid_triple:
  assumes "fst (parse_quantiles f fv) = (Fin p, Fin l, Fin u)"
      and "actual_to_float f av = Fin a"
      and "\<not> (p = 0 \<and> l = 0 \<and> u = 0)"
  shows "\<exists>r. compare_metric f col fv av d = Inr r \<and>
     (l \<le> a \<and> a \<le> u \<longrightarrow> status r = ''IN_RANGE'' \<and> deviation_pct r = Fin 0) \<and>
     (a < l \<and> l \<noteq> 0 \<longrightarrow>
        status r = ''BELOW_P10'' \<and>
        deviation_pct r = py_round2 (fmul (fdiv (fsub (Fin l) (Fin a)) (Fin l)) (Fin 100))) \<and>
     (u < a \<and> u \<noteq> 0 \<and> l \<le> a \<longrightarrow>
        status r = ''ABOVE_P90'' \<and>
        deviation_pct r = py_round2 (fmul (fdiv (fsub (Fin a) (Fin u)) (Fin u)) (Fin 100)))"
proof -
  let ?c = "classify (Fin p) (Fin l) (Fin u) (Fin a)"
  let ?r = "\<lparr>date = d, metric = col, actual = round_half_even a,
             forecast = round_half_even p, q10 = round_half_even l, q90 = round_half_even u,
             status = fst ?c, deviation_pct = py_round2 (snd ?c)\<rparr>"
  have row: "compare_metric f col fv av d = Inr ?r"
    by (rule compare_metric_finite[OF assms(1,2)])
  have inside: "l \<le> a \<and> a \<le> u \<longrightarrow> fst ?c = ''IN_RANGE'' \<and> py_round2 (snd ?c) = Fin 0"
    using assms(3) by (auto simp: classify_finite round2_zero to_double_zero)
  have below: "a < l \<and> l \<noteq> 0 \<longrightarrow> fst ?c = ''BELOW_P10'' \<and>
      py_round2 (snd ?c) = py_round2 (fmul (fdiv (fsub (Fin l) (Fin a)) (Fin l)) (Fin 100))"
    by (simp only: classify_finite) simp
  have above: "u < a \<and> u \<noteq> 0 \<and> l \<le> a \<longrightarrow> fst ?c = ''ABOVE_P90'' \<and>
      py_round2 (snd ?c) = py_round2 (fmul (fdiv (fsub (Fin a) (Fin u)) (Fin u)) (Fin 100))"
    by (simp only: classify_finite) simp
  show ?thesis using row inside below above by simp
qed

text \<open>
  The deviation of the actual value 600 below the lower bound 900, operation by
  operation: the quotient is the double nearest to a third, and the result is the double
  nearest to 33.33.
\<close>

lemma deviation_600_below_900:
  "py_round2 (fmul (fdiv (fsub (Fin 900) (Fin 600)) (Fin 900)) (Fin 100)) = to_double (3333 / 100)"
proof -
  have s: "fsub (Fin 900) (Fin 600) = Fin 300"
    by (simp, subst to_double_eval[where e = 8])
      (simp_all add: round_half_even_def power_int_minus)
  have q: "fdiv (Fin 300) (Fin 900) = Fin (6004799503160661 / 2 ^ 54)"
    by (simp, subst to_double_eval[where e = "- 2"])
      (simp_all add: round_half_even_def power_int_minus)
  have m: "fmul (Fin (6004799503160661 / 2 ^ 54)) (Fin 100) = Fin (4691249611844266 / 2 ^ 47)"
    by (simp, subst to_double_eval[where e = 5])
      (simp_all add: round_half_even_def power_int_minus)
  have r: "round2 (4691249611844266 / 2 ^ 47) = 3333 / 100"
    by (simp add: round2_def round_half_even_def)
  show ?thesis by (simp only: s q m py_round2.simps r)
qed

text \<open>
  The deviation of the actual value 999.75 below the lower bound 1000: the product is a
  double a little above 0.025, so it is rounded up, to the double nearest to 0.03.
\<close>

lemma deviation_rounds_the_double:
  "py_round2 (fmul (fdiv (fsub (Fin 1000) (Fin (3999 / 4))) (Fin 1000)) (Fin 100))
     = to_double (3 / 100)"
proof -
  have s: "fsub (Fin 1000) (Fin (3999 / 4)) = Fin (1 / 4)"
    by (simp, subst to_double_eval[where e = "- 2"])
      (simp_all add: round_half_even_def power_int_minus)
  have q: "fdiv (Fin (1 / 4)) (Fin 1000) = Fin (4611686018427388 / 2 ^ 64)"
    by (simp, subst to_double_eval[where e = "- 12"])
      (simp_all add: round_half_even_def power_int_minus)
  have m: "fmul (Fin (4611686018427388 / 2 ^ 64)) (Fin 100) = Fin (7205759403792794 / 2 ^ 58)"
    by (simp, subst to_double_eval[where e = "- 6"])
      (simp_all add: round_half_even_def power_int_minus)
  have r: "round2 (7205759403792794 / 2 ^ 58) = 3 / 100"
    by (simp add: round2_def round_half_even_def)
  show ?thesis by (simp only: s q m py_round2.simps r)
qed

text \<open>
  Claim C1, witness: the cell \<open>1000|900|...|1100\<close> against the actual value 600 is
  \<open>BELOW_P10\<close>, and its deviation is the double nearest to 33.33.
\<close>

theorem compare_metric_valid_triple_witness:
  "\<exists>r. compare_metric float_of_literal ''m'' ''1000|900|920|950|975|1000|1025|1050|1080|1100''
          (PyFloat (Fin 600)) (None :: unit option) = Inr r \<and>
       status r = ''BELOW_P10'' \<and> deviation_pct r = to_double (3333 / 100)"
proof -
  have p: "fst (parse_quantiles float_of_literal ''1000|900|920|950|975|1000|1025|1050|1080|1100'')
             = (Fin 1000, Fin 900, Fin 1100)"
    by (simp add: parse_quantiles_def field_at_def literal_defs quantile_consts)
  have a: "actual_to_float float_of_literal (PyFloat (Fin 600)) = Fin 600"
    by (simp add: actual_to_float_def)
  have n: "\<not> ((1000 :: real) = 0 \<and> (900 :: real) = 0 \<and> (1100 :: real) = 0)" by simp
  from compare_metric_valid_triple[OF p a n, of "''m''" "None :: unit option"]
  obtain r where r: "compare_metric float_of_literal ''m''
        ''1000|900|920|950|975|1000|1025|1050|1080|1100'' (PyFloat (Fin 600))
        (None :: unit option) = Inr r"
    and b: "(600 :: real) < 900 \<and> (900 :: real) \<noteq> 0 \<longrightarrow> status r = ''BELOW_P10'' \<and>
      deviation_pct r = py_round2 (fmul (fdiv (fsub (Fin 900) (Fin 600)) (Fin 900)) (Fin 100))"
    by blast
  from b have "status r = ''BELOW_P10''"
    and "deviation_pct r = py_round2 (fmul (fdiv (fsub (Fin 900) (Fin 600)) (Fin 900)) (Fin 100))"
    by simp_all
  with r show ?thesis by (simp only: deviation_600_below_900) blast
qed

text \<open>
  Claim C1, counterexample to the claim as stated: with the bounds reversed (lower 10,
  upper 5) the triple is valid and the actual value 7 is above the non-zero upper bound,
  yet the status is \<open>BELOW_P10\<close>, because the test against the lower bound comes
  first.
\<close>

theorem compare_metric_reversed_bounds_counterexample:
  "fst (parse_quantiles float_of_literal ''7|10|0|0|0|0|0|0|0|5'') = (Fin 7, Fin 10, Fin 5) \<and>
   actual_to_float float_of_literal (PyFloat (Fin 7)) = Fin 7 \<and>
   (5 :: real) < 7 \<and> (5 :: real) \<noteq> 0 \<and>
   map_sum id status
     (compare_metric float_of_literal ''m'' ''7|10|0|0|0|0|0|0|0|5'' (PyFloat (Fin 7))
        (None :: unit option)) = Inr ''BELOW_P10''"
  by (simp add: compare_metric_def classify_def deviation_of_def actual_to_float_def
      round_half_even_def round2_def parse_quantiles_def field_at_def literal_defs
      quantile_consts)

lemma parse_quantiles_cases:
  "parse_quantiles f fv =
     (let parts = split_on (CHR ''|'') fv
      in if (\<exists>i \<in> {0, 1, 9}. i < length parts \<and> f (parts ! i) = None)
         then ((Fin 0, Fin 0, Fin 0), [])
         else ((case field_at f parts 0 of Some x \<Rightarrow> x | None \<Rightarrow> Fin 0,
                case field_at f parts 1 of Some x \<Rightarrow> x | None \<Rightarrow> Fin 0,
                case field_at f parts 9 of Some x \<Rightarrow> x | None \<Rightarrow> Fin 0),
               if length parts < 10 then [QuantileCountWarning 10 (length parts)] else []))"
  by (auto simp: parse_quantiles_def field_at_def quantile_consts Let_def split: option.splits)

text \<open>
  Claim C5, as amended. Parsing is total. Only the fields at the positions 0, 1 and 9 are
  converted. If each of them that is present converts and the cell has fewer than 10
  fields, the upper bound (and the lower bound of a one-field cell) is \<open>0.0\<close> and one
  warning is issued. If one of them is present and does not convert, all three values are
  \<open>0.0\<close>, no warning is issued, and for every actual value that converts to a finite
  number the row returned has status \<open>NO_FORECAST\<close> and deviation 0.
\<close>

theorem parse_quantiles_degrades:
  assumes "parts = split_on (CHR ''|'') fv"
  shows "((\<forall>i \<in> {0, 1, 9}. i < length parts \<longrightarrow> f (parts ! i) \<noteq> None) \<and> length parts < 10 \<longrightarrow>
            (\<exists>p l. parse_quantiles f fv = ((p, l, Fin 0), [QuantileCountWarning 10 (length parts)]) \<and>
                   f (parts ! 0) = Some p \<and>
                   (if 1 < length parts then f (parts ! 1) = Some l else l = Fin 0))) \<and>
         ((\<exists>i \<in> {0, 1, 9}. i < length parts \<and> f (parts ! i) = None) \<longrightarrow>
            parse_quantiles f fv = ((Fin 0, Fin 0, Fin 0), []) \<and>
            (\<forall>a. actual_to_float f av = Fin a \<longrightarrow>
               (\<exists>r. compare_metric f col fv av d = Inr r \<and> status r = ''NO_FORECAST'' \<and>
                    deviation_pct r = Fin 0)))"
proof (intro conjI impI)
  assume h: "(\<forall>i \<in> {0, 1, 9}. i < length parts \<longrightarrow> f (parts ! i) \<noteq> None) \<and> length parts < 10"
  have ne: "0 < length parts" using assms split_on_nonempty[of "CHR ''|''" fv] by simp
  from h ne obtain p where p: "f (parts ! 0) = Some p" by auto
  show "\<exists>p l. parse_quantiles f fv = ((p, l, Fin 0), [QuantileCountWarning 10 (length parts)]) \<and>
               f (parts ! 0) = Some p \<and>
               (if 1 < length parts then f (parts ! 1) = Some l else l = Fin 0)"
  proof (cases "1 < length parts")
    case True
    with h obtain l where l: "f (parts ! 1) = Some l" by auto
    show ?thesis using h ne p l True assms
      by (auto simp: parse_quantiles_cases field_at_def Let_def)
  next
    case False
    show ?thesis using h ne p False assms
      by (auto simp: parse_quantiles_cases field_at_def Let_def)
  qed
next
  assume h: "\<exists>i \<in> {0, 1, 9}. i < length parts \<and> f (parts ! i) = None"
  then show z: "parse_quantiles f fv = ((Fin 0, Fin 0, Fin 0), [])"
    using assms by (simp add: parse_quantiles_cases Let_def)
  show "\<forall>a. actual_to_float f av = Fin a \<longrightarrow>
          (\<exists>r. compare_metric f col fv av d = Inr r \<and> status r = ''NO_FORECAST'' \<and>
               deviation_pct r = Fin 0)"
  proof (intro allI impI)
    fix a assume a: "actual_to_float f av = Fin a"
    have t: "fst (parse_quantiles f fv) = (Fin 0, Fin 0, Fin 0)" using z by simp
    show "\<exists>r. compare_metric f col fv av d = Inr r \<and> status r = ''NO_FORECAST'' \<and>
              deviation_pct r = Fin 0"
      by (simp add: compare_metric_finite[OF t a] classify_finite round2_zero to_double_zero)
  qed
qed

text \<open>
  Claim C5, witness: the cell \<open>5|abc\<close> degrades to zeros and \<open>NO_FORECAST\<close>; the cell
  \<open>5|7\<close> keeps its two values, has upper bound \<open>0.0\<close> and issues the warning.
\<close>

theorem parse_quantiles_degrades_witness:
  "parse_quantiles float_of_literal ''5|abc'' = ((Fin 0, Fin 0, Fin 0), []) \<and>
   (\<exists>r. compare_metric float_of_literal ''m'' ''5|abc'' (PyStr ''oops'') (None :: unit option) = Inr r \<and>
        status r = ''NO_FORECAST'' \<and> deviation_pct r = Fin 0) \<and>
   (\<exists>p l. parse_quantiles float_of_literal ''5|7'' = ((p, l, Fin 0), [QuantileCountWarning 10 2]) \<and> 
          float_of_literal ''5'' = Some p \<and> float_of_literal ''7'' = Some l)"
proof -
  have s1: "[''5'', ''abc''] = split_on (CHR ''|'') ''5|abc''" by simp
  have s2: "[''5'', ''7''] = split_on (CHR ''|'') ''5|7''" by simp
  have bad: "\<exists>i \<in> {0, 1, 9 :: nat}. i < length [''5'', ''abc''] \<and> float_of_literal ([''5'', ''abc''] ! i) = None"
    by (simp add: literal_defs)
  have good: "(\<forall>i \<in> {0, 1, 9 :: nat}. i < length [''5'', ''7''] \<longrightarrow> float_of_literal ([''5'', ''7''] ! i) \<noteq> None)
     \<and> length [''5'', ''7''] < 10"
    by (simp add: literal_defs)
  have a: "actual_to_float float_of_literal (PyStr ''oops'') = Fin 0"
    by (simp add: actual_to_float_def literal_defs)
  from parse_quantiles_degrades[OF s1, of float_of_literal "PyStr ''oops''" "''m''" "None :: unit option"] bad a
  have c1: "parse_quantiles float_of_literal ''5|abc'' = ((Fin 0, Fin 0, Fin 0), []) \<and>
   (\<exists>r. compare_metric float_of_literal ''m'' ''5|abc'' (PyStr ''oops'') (None :: unit option) = Inr r \<and>
        status r = ''NO_FORECAST'' \<and> deviation_pct r = Fin 0)"
    by blast
  from parse_quantiles_degrades[OF s2, of float_of_literal "PyStr ''oops''" "''m''" "None :: unit option"] good
  have c2: "\<exists>p l. parse_quantiles float_of_literal ''5|7'' = ((p, l, Fin 0), [QuantileCountWarning 10 (length [''5'', ''7''])]) \<and>
          float_of_literal ([''5'', ''7''] ! 0) = Some p \<and>
          (if 1 < length [''5'', ''7''] then float_of_literal ([''5'', ''7''] ! 1) = Some l else l = Fin 0)"
    by blast
  from c2 have c2': "\<exists>p l. parse_quantiles float_of_literal ''5|7'' = ((p, l, Fin 0), [QuantileCountWarning 10 2]) \<and> 
          float_of_literal ''5'' = Some p \<and> float_of_literal ''7'' = Some l"
    by (simp add: numeral_2_eq_2)
  show ?thesis using c1 c2' by blast
qed

text \<open>
  Claim C5, counterexample to the claim as stated: the third field of
  \<open>1|2|x|4|5|6|7|8|9|10\<close> is no number, yet the three values are 1, 2 and 10; and the
  one-field cell \<open>abc\<close> is shorter than 10 fields, yet no warning is issued.
\<close>

theorem parse_quantiles_counterexample:
  "float_of_literal ''x'' = None \<and>
   split_on (CHR ''|'') ''1|2|x|4|5|6|7|8|9|10''
     = [''1'', ''2'', ''x'', ''4'', ''5'', ''6'', ''7'', ''8'', ''9'', ''10''] \<and>
   fst (parse_quantiles float_of_literal ''1|2|x|4|5|6|7|8|9|10'') = (Fin 1, Fin 2, Fin 10) \<and>
   length (split_on (CHR ''|'') ''abc'') < 10 \<and>
   compare_metric_warnings float_of_literal ''abc'' = []"
  by (simp add: compare_metric_warnings_def parse_quantiles_def field_at_def literal_defs
      quantile_consts)

text \<open>
  Claim C2, the code at the failing input: a cell whose point forecast is \<open>nan\<close> parses
  to a triple with a NaN, the status is set to \<open>NO_FORECAST\<close>, and then
  \<open>round(point_forecast)\<close> raises \<open>ValueError\<close>, so no row is returned.
\<close>

theorem compare_metric_nan_forecast_raises:
  "fst (parse_quantiles float_of_literal ''nan|900|920|950|975|1000|1025|1050|1080|1100'')
     = (NaN, Fin 900, Fin 1100) \<and>
   compare_metric float_of_literal ''m'' ''nan|900|920|950|975|1000|1025|1050|1080|1100''
     (PyFloat (Fin 950)) (None :: unit option)
     = Inl (ValueError ''cannot convert float NaN to integer'')"
  by (simp add: compare_metric_def classify_def deviation_of_def actual_to_float_def
      round_half_even_def parse_quantiles_def field_at_def literal_defs quantile_consts)

lemma compare_metric_row_status:
  assumes "compare_metric f col fv av d = Inr r"
      and "fst (parse_quantiles f fv) = (pt, lo, up)"
  shows "status r = ''NO_FORECAST'' \<longleftrightarrow> pt = Fin 0 \<and> lo = Fin 0 \<and> up = Fin 0"
proof -
  from compare_metric_row_finite[OF assms(1)] assms(2)
  obtain p l u a where t: "fst (parse_quantiles f fv) = (Fin p, Fin l, Fin u)"
    and a: "actual_to_float f av = Fin a" and e: "pt = Fin p" "lo = Fin l" "up = Fin u"
    by auto
  show ?thesis using assms(1) e
    by (auto simp: compare_metric_finite[OF t a] classify_finite split: if_splits)
qed

lemma compare_metric_nan_no_row:
  assumes "fst (parse_quantiles f fv) = (pt, lo, up)"
      and "is_nan pt \<or> is_nan lo \<or> is_nan up"
  shows "\<exists>e. compare_metric f col fv av d = Inl e"
proof (cases "compare_metric f col fv av d")
  case (Inl e) then show ?thesis by simp
next
  case (Inr r)
  from compare_metric_row_finite[OF Inr] assms show ?thesis by auto
qed


section \<open>Properties of the anomaly filter\<close>

text \<open>
  Claim C9. Applying the anomaly filter to its own output changes nothing: the second
  pass either sees an empty table and hands it back, or keeps every row it is given.
\<close>

theorem AnomalyFilter_process_idempotent:
  "AnomalyFilter_process self (AnomalyFilter_process self results_df)
     = AnomalyFilter_process self results_df"
  by (simp add: AnomalyFilter_process_def df_empty_def)

text \<open>
  Claim C9, witness: a table with one row of each of three statuses; it is not empty and
  has a \<open>status\<close> column, one pass keeps the row 1, and a second pass changes nothing.
\<close>

theorem AnomalyFilter_process_idempotent_witness:
  "\<not> df_empty \<lparr>df_columns = [''metric'', ''status''],
       df_rows = [(0, [''status'' \<mapsto> PyStr ''IN_RANGE'']),
                  (1, [''status'' \<mapsto> PyStr ''BELOW_P10'']),
                  (2, [''status'' \<mapsto> PyStr ''NO_FORECAST''])]\<rparr> \<and>
   map fst (df_rows (AnomalyFilter_process (AnomalyFilter_init True)
     \<lparr>df_columns = [''metric'', ''status''],
       df_rows = [(0, [''status'' \<mapsto> PyStr ''IN_RANGE'']),
                  (1, [''status'' \<mapsto> PyStr ''BELOW_P10'']),
                  (2, [''status'' \<mapsto> PyStr ''NO_FORECAST''])]\<rparr>)) = [1] \<and>
   AnomalyFilter_process (AnomalyFilter_init True)
     (AnomalyFilter_process (AnomalyFilter_init True)
        \<lparr>df_columns = [''metric'', ''status''],
          df_rows = [(0, [''status'' \<mapsto> PyStr ''IN_RANGE'']),
                     (1, [''status'' \<mapsto> PyStr ''BELOW_P10'']),
                     (2, [''status'' \<mapsto> PyStr ''NO_FORECAST''])]\<rparr>)
     = AnomalyFilter_process (AnomalyFilter_init True)
        \<lparr>df_columns = [''metric'', ''status''],
          df_rows = [(0, [''status'' \<mapsto> PyStr ''IN_RANGE'']),
                     (1, [''status'' \<mapsto> PyStr ''BELOW_P10'']),
                     (2, [''status'' \<mapsto> PyStr ''NO_FORECAST''])]\<rparr>"
  using AnomalyFilter_process_idempotent[of "AnomalyFilter_init True"
      "\<lparr>df_columns = [''metric'', ''status''],
        df_rows = [(0, [''status'' \<mapsto> PyStr ''IN_RANGE'']),
                   (1, [''status'' \<mapsto> PyStr ''BELOW_P10'']),
                   (2, [''status'' \<mapsto> PyStr ''NO_FORECAST''])]\<rparr>"]
  by (simp add: AnomalyFilter_process_def df_empty_def status_isin_anomalies_def)

lemma result_cells_status: "result_cells r ''status'' = Some (PyStr (status r))"
  by (simp add: result_cells_def Let_def split: option.splits)

lemma status_isin_anomalies_result:
  "status_isin_anomalies (result_cells r) \<longleftrightarrow> status r = ''BELOW_P10'' \<or> status r = ''ABOVE_P90''"
  by (simp add: status_isin_anomalies_def result_cells_status)

lemma status_key: "''status'' \<in> set (result_keys r)"
  by (simp add: result_keys_def)

lemma result_frame_status_column:
  "results \<noteq> [] \<Longrightarrow> ''status'' \<in> set (df_columns (result_frame results))"
proof -
  assume "results \<noteq> []"
  then obtain r where "r \<in> set results" by (cases results) auto
  then have "''status'' \<in> set (concat (map result_keys results))"
    using status_key by auto
  then show ?thesis by (simp add: result_frame_def first_occurrences_def)
qed

lemma map_snd_filter_zip:
  "length labels = length cells \<Longrightarrow>
     map snd (filter (\<lambda>(i, c). P c) (zip labels cells)) = filter P cells"
  by (induction labels cells rule: list_induct2) simp_all

lemma AnomalyFilter_process_result_frame:
  "df_rows (AnomalyFilter_process self (result_frame results))
     = filter (\<lambda>(i, cells). status_isin_anomalies cells) (df_rows (result_frame results))"
proof (cases "results = []")
  case True
  then show ?thesis by (simp add: AnomalyFilter_process_def result_frame_def)
next
  case False
  then have "\<not> df_empty (result_frame results)"
    using result_frame_status_column[OF False]
    by (auto simp: df_empty_def result_frame_def)
  with result_frame_status_column[OF False] show ?thesis
    by (simp add: AnomalyFilter_process_def)
qed

text \<open>
  Claim C10. \<open>process\<close> never reads \<open>exclude_no_forecast\<close>: both values of the flag give
  the same table. On every table of results, whatever the flag, the rows returned are the
  rows whose status is \<open>BELOW_P10\<close> or \<open>ABOVE_P90\<close>, in their order; so the rows of status
  \<open>NO_FORECAST\<close> and \<open>IN_RANGE\<close> are removed also when the flag is \<open>False\<close>. The same
  holds of every table that has a \<open>status\<close> column.
\<close>

theorem AnomalyFilter_keeps_exactly_the_anomalies:
  "AnomalyFilter_process (AnomalyFilter_init True) df
     = AnomalyFilter_process (AnomalyFilter_init False) df \<and>
   map snd (df_rows (AnomalyFilter_process (AnomalyFilter_init flag) (result_frame results)))
     = map result_cells
         (filter (\<lambda>r. status r = ''BELOW_P10'' \<or> status r = ''ABOVE_P90'') results) \<and>
   (''status'' \<in> set (df_columns df) \<longrightarrow>
      AnomalyFilter_process (AnomalyFilter_init flag) df
        = df\<lparr>df_rows :=
               filter (\<lambda>(i, cells). cells ''status'' = Some (PyStr ''BELOW_P10'') \<or>
                                     cells ''status'' = Some (PyStr ''ABOVE_P90''))
                 (df_rows df)\<rparr>)"
proof (intro conjI impI)
  show "AnomalyFilter_process (AnomalyFilter_init True) df
          = AnomalyFilter_process (AnomalyFilter_init False) df"
    by (simp add: AnomalyFilter_process_def)
next
  have "map snd (df_rows (AnomalyFilter_process (AnomalyFilter_init flag) (result_frame results)))
          = filter status_isin_anomalies (map result_cells results)"
    by (simp only: AnomalyFilter_process_result_frame)
      (simp add: result_frame_def map_snd_filter_zip)
  also have "\<dots> = map result_cells
      (filter (\<lambda>r. status r = ''BELOW_P10'' \<or> status r = ''ABOVE_P90'') results)"
    by (simp add: filter_map comp_def status_isin_anomalies_result)
  finally show "map snd (df_rows (AnomalyFilter_process (AnomalyFilter_init flag)
                    (result_frame results)))
      = map result_cells
          (filter (\<lambda>r. status r = ''BELOW_P10'' \<or> status r = ''ABOVE_P90'') results)" .
next
  assume "''status'' \<in> set (df_columns df)"
  then show "AnomalyFilter_process (AnomalyFilter_init flag) df
        = df\<lparr>df_rows :=
               filter (\<lambda>(i, cells). cells ''status'' = Some (PyStr ''BELOW_P10'') \<or>
                                     cells ''status'' = Some (PyStr ''ABOVE_P90''))
                 (df_rows df)\<rparr>"
    by (auto simp: AnomalyFilter_process_def df_empty_def status_isin_anomalies_def)
qed

text \<open>
  Claim C10, witness: of the five example results, with the flag \<open>False\<close>, the rows 1 and
  3 are returned, the one \<open>BELOW_P10\<close> and the other \<open>ABOVE_P90\<close>; the \<open>NO_FORECAST\<close> row 2
  is removed like the rows 0 and 4.
\<close>

theorem AnomalyFilter_keeps_exactly_the_anomalies_witness:
  "''status'' \<in> set (df_columns (result_frame example_results)) \<and>
   map (\<lambda>row. (fst row, snd row ''metric'', snd row ''status''))
     (df_rows (AnomalyFilter_process (AnomalyFilter_init False) (result_frame example_results)))
     = [(1, Some (PyStr ''b''), Some (PyStr ''BELOW_P10'')),
        (3, Some (PyStr ''d''), Some (PyStr ''ABOVE_P90''))]"
proof -
  have c: "''status'' \<in> set (df_columns (result_frame example_results))"
    by (rule result_frame_status_column) (simp add: example_results_def)
  from AnomalyFilter_keeps_exactly_the_anomalies[of "result_frame example_results" False
      example_results] c
  have "AnomalyFilter_process (AnomalyFilter_init False) (result_frame example_results)
        = (result_frame example_results)\<lparr>df_rows :=
               filter (\<lambda>(i, cells). cells ''status'' = Some (PyStr ''BELOW_P10'') \<or>
                                     cells ''status'' = Some (PyStr ''ABOVE_P90''))
                 (df_rows (result_frame example_results))\<rparr>"
    by blast
  then have "map (\<lambda>row. (fst row, snd row ''metric'', snd row ''status''))
     (df_rows (AnomalyFilter_process (AnomalyFilter_init False) (result_frame example_results)))
     = [(1, Some (PyStr ''b''), Some (PyStr ''BELOW_P10'')),
        (3, Some (PyStr ''d''), Some (PyStr ''ABOVE_P90''))]"
    by (simp add: result_frame_def example_results_def result_cells_def Let_def)
  with c show ?thesis by simp
qed

section \<open>Properties of validation, construction and selection\<close>

text \<open>
  Claim C7. An empty forecast table makes \<open>detect\<close> raise \<open>Forecast DataFrame is empty\<close>
  at once; an empty actual table beside a forecast table that is not empty makes it raise
  \<open>Actual DataFrame is empty\<close>; an argument that is no table makes it raise a
  \<open>TypeError\<close> that names \<open>forecast_df\<close> or \<open>actual_df\<close>. In the workflow a forecast
  reader that loads nothing or an empty table raises the error of the forecast reader,
  and after a good forecast the same holds of the actual reader.
\<close>

theorem empty_input_raises_naming_stage:
  "(df_empty fdf \<longrightarrow>
      detect_results f pivot_table date_col excluded (DataFrame fdf) (DataFrame adf)
        = Inl (ValueError ''Forecast DataFrame is empty'')) \<and>
   (\<not> df_empty fdf \<and> df_empty adf \<longrightarrow>
      detect_results f pivot_table date_col excluded (DataFrame fdf) (DataFrame adf)
        = Inl (ValueError ''Actual DataFrame is empty'')) \<and>
   detect_results f pivot_table date_col excluded (NotDataFrame tn) actual_obj
     = Inl (TypeError (''Expected pandas DataFrame for forecast_df, got '' @ tn)) \<and>
   detect_results f pivot_table date_col excluded (DataFrame fdf) (NotDataFrame tn)
     = Inl (TypeError (''Expected pandas DataFrame for actual_df, got '' @ tn)) \<and>
   ((case forecast_loaded of None \<Rightarrow> True | Some df \<Rightarrow> df_empty df) \<longrightarrow>
      execute_detection forecast_loaded actual_loaded pre_filters detector post_filters
        = Inl (ValueError
            ''Forecast reader returned empty dataset. Cannot proceed with anomaly detection.'')) \<and>
   (\<not> (case forecast_loaded of None \<Rightarrow> True | Some df \<Rightarrow> df_empty df) \<and>
    (case actual_loaded of None \<Rightarrow> True | Some df \<Rightarrow> df_empty df) \<longrightarrow>
      execute_detection forecast_loaded actual_loaded pre_filters detector post_filters
        = Inl (ValueError
            ''Actual reader returned empty dataset. Cannot proceed with anomaly detection.''))"
  by (auto simp: detect_results_def validate_inputs_def execute_detection_def
      split: option.splits)

text \<open>
  Claim C7, witness: an empty forecast table, and an actual table without rows beside a
  forecast table with one row, at the detector and in the workflow.
\<close>

theorem empty_input_raises_naming_stage_witness:
  "detect_results float_of_literal Inr ''date'' [''date'']
     (DataFrame \<lparr>df_columns = [], df_rows = []\<rparr>)
     (DataFrame \<lparr>df_columns = [''date'', ''m''], df_rows = [(0, [''m'' \<mapsto> PyFloat (Fin 95)])]\<rparr>)
     = Inl (ValueError ''Forecast DataFrame is empty'') \<and>
   detect_results float_of_literal Inr ''date'' [''date'']
     (DataFrame \<lparr>df_columns = [''date'', ''m''], df_rows = [(0, [''m'' \<mapsto> ''100|90''])]\<rparr>)
     (DataFrame \<lparr>df_columns = [''date'', ''m''], df_rows = []\<rparr>)
     = Inl (ValueError ''Actual DataFrame is empty'') \<and>
   (execute_detection (Some \<lparr>df_columns = [], df_rows = []\<rparr>)
      (None :: pyval frame option) [] (\<lambda>(a :: string frame) b. Inr (None :: pyval frame option)) []
     = Inl (ValueError
         ''Forecast reader returned empty dataset. Cannot proceed with anomaly detection.'')) \<and>
   (execute_detection
      (Some \<lparr>df_columns = [''date'', ''m''], df_rows = [(0, [''m'' \<mapsto> ''100|90''])]\<rparr>)
      (None :: pyval frame option) [] (\<lambda>(a :: string frame) b. Inr (None :: pyval frame option)) []
     = Inl (ValueError
         ''Actual reader returned empty dataset. Cannot proceed with anomaly detection.''))"
proof -
  let ?e = "\<lparr>df_columns = [], df_rows = []\<rparr> :: string frame"
  let ?a = "\<lparr>df_columns = [''date'', ''m''], df_rows = [(0, [''m'' \<mapsto> PyFloat (Fin 95)])]\<rparr>"
  let ?f = "\<lparr>df_columns = [''date'', ''m''], df_rows = [(0, [''m'' \<mapsto> ''100|90''])]\<rparr> :: string frame"
  let ?ea = "\<lparr>df_columns = [''date'', ''m''], df_rows = []\<rparr> :: pyval frame"
  let ?det = "\<lambda>(a :: string frame) (b :: pyval frame). (Inr None :: error + pyval frame option)"
  have e: "df_empty ?e" "\<not> df_empty ?f" "df_empty ?ea"
    by (simp_all add: df_empty_def)
  note t1 = empty_input_raises_naming_stage[of ?e float_of_literal Inr "''date''" "[''date'']" ?a
      "''x''" "DataFrame ?a" "Some ?e" "None :: pyval frame option" "[]" ?det "[]"]
  note t2 = empty_input_raises_naming_stage[of ?f float_of_literal Inr "''date''" "[''date'']" ?ea
      "''x''" "DataFrame ?a" "Some ?f" "None :: pyval frame option" "[]" ?det "[]"]
  show ?thesis using t1 t2 e by simp
qed

text \<open>
  Claim C8, the code at the failing input: \<open>ForecastActualComparator\<close> is constructed with
  \<open>cumulative_threshold = 1.5\<close> without an error, while \<open>CumulativeThresholdFilter\<close>
  refuses the same number.
\<close>

theorem comparator_accepts_invalid_threshold:
  "ForecastActualComparator_init \<lparr>t_columns = None\<rparr> ''date'' None None (Some (Fin (3 / 2)))
       False (Fin 0) False
     = Inr \<lparr>cmp_transformer = \<lparr>t_columns = None\<rparr>, cmp_date_column = ''date'',
            cmp_exclude_columns = [''date''], cmp_dimension_names = None,
            cmp_cumulative_threshold = Some (Fin (3 / 2)), cmp_return_only_anomalies = False,
            cmp_min_deviation_threshold = Fin 0, cmp_format_deviation_as_string = False\<rparr> \<and>
   CumulativeThresholdFilter_init \<lparr>t_columns = None\<rparr> (Fin (3 / 2)) None
     = Inl (ValueError ''threshold_pct must be between 0 and 1, got'')"
  by (simp add: ForecastActualComparator_init_def CumulativeThresholdFilter_init_def)

lemma CumulativeThresholdFilter_init_checks:
  "(\<exists>self. CumulativeThresholdFilter_init tr threshold_pct excluded = Inr self)
     \<longleftrightarrow> (\<exists>t. threshold_pct = Fin t \<and> 0 < t \<and> t \<le> 1)"
  by (cases threshold_pct) (auto simp: CumulativeThresholdFilter_init_def)

lemma ForecastActualComparator_init_checks:
  "(\<exists>e. ForecastActualComparator_init tr date_col excluded names threshold only_anomalies
            min_deviation as_string = Inl e)
     \<longleftrightarrow> (\<exists>ns tc. names = Some ns \<and> t_columns tr = Some tc \<and>
                 ns \<noteq> (case tc of ColumnName c \<Rightarrow> [c] | ColumnList cs \<Rightarrow> cs))"
  by (auto simp: ForecastActualComparator_init_def validate_dimension_names_def Let_def
      split: option.splits)

lemma BigQueryDataWriter_init_checks:
  assumes "create_disposition \<notin> set VALID_CREATE_DISPOSITIONS \<or>
           write_disposition \<notin> set VALID_WRITE_DISPOSITIONS"
  shows "\<exists>e. BigQueryDataWriter_init fs service_account_file project dataset table
            create_disposition write_disposition = Inl e"
  using assms by (auto simp: BigQueryDataWriter_init_def split: option.splits)

text \<open>
  Claim C3, the code at the failing input: over the volumes of the scenario the pre-filter
  keeps the metric \<open>a\<close> alone, whose share of the total is below the threshold.
\<close>

theorem metrics_to_keep_scenario:
  "metrics_to_keep [(''a'', 5000), (''b'', 3000), (''c'', 100), (''d'', 50)] (95 / 100)
     = Some [''a''] \<and>
   (5000 :: real) / sum_list [5000, 3000, 100, 50] < 95 / 100"
  by (simp add: metrics_to_keep_def sort_values_desc_def cumsum_def)

text \<open>
  Claim C4, the code at the failing input: over the volumes of the scenario the selection
  before detection keeps \<open>a\<close> alone, while the selection after detection, given the same
  values and the same threshold, keeps \<open>a\<close> and \<open>b\<close>.
\<close>

theorem selections_differ_on_scenario:
  "metrics_to_keep [(''a'', 5000), (''b'', 3000), (''c'', 100), (''d'', 50)] (95 / 100)
     = Some [''a''] \<and>
   map fst (filter_cumulative_threshold snd
              [(''a'', 5000), (''b'', 3000), (''c'', 100), (''d'', 50)] (95 / 100))
     = [''a'', ''b'']"
  by (simp add: metrics_to_keep_def sort_values_desc_def filter_cumulative_threshold_def
      cumsum_def)

section \<open>Properties of the detection engine\<close>

lemma compare_columns_rows:
  "compare_columns f dv frow arow cols = Inr rs \<Longrightarrow>
     map (\<lambda>r. (date r, metric r)) rs = map (\<lambda>c. (dv, c)) cols"
proof (induction cols arbitrary: rs)
  case Nil
  then show ?case by simp
next
  case (Cons c cols)
  then show ?case
    by (auto simp: compare_metric_def Let_def split: option.splits sum.splits prod.splits)
qed

lemma compare_rows_skips:
  "compare_rows f dc fc arows cols frows
     = compare_rows f dc fc arows cols (filter (\<lambda>row. fst row \<in> fst ` set arows) frows)"
proof (induction frows)
  case Nil
  then show ?case by simp
next
  case (Cons row frows)
  obtain idx frow where row: "row = (idx, frow)" by (cases row)
  show ?case
  proof (cases "map_of arows idx")
    case None
    then have "idx \<notin> fst ` set arows" by (simp add: map_of_eq_None_iff)
    with None Cons row show ?thesis by simp
  next
    case (Some arow)
    then have "idx \<in> fst ` set arows" by (metis map_of_eq_None_iff option.distinct(1))
    with Some row show ?thesis
      by (simp add: Let_def Cons.IH[symmetric] cong: sum.case_cong)
  qed
qed

lemma compare_rows_rows:
  "compare_rows f dc fc arows cols frows = Inr rs \<Longrightarrow>
     map (\<lambda>r. (date r, metric r)) rs
       = concat (map (\<lambda>row. map (\<lambda>c. (if dc \<in> set fc then Some (snd row dc) else None, c)) cols)
                   (filter (\<lambda>row. fst row \<in> fst ` set arows) frows))"
proof (induction frows arbitrary: rs)
  case Nil
  then show ?case by simp
next
  case (Cons row frows)
  obtain idx frow where row: "row = (idx, frow)" by (cases row)
  show ?case
  proof (cases "map_of arows idx")
    case None
    then have "idx \<notin> fst ` set arows" by (simp add: map_of_eq_None_iff)
    with None Cons row show ?thesis by simp
  next
    case (Some arow)
    then have in_a: "idx \<in> fst ` set arows" by (metis map_of_eq_None_iff option.distinct(1))
    let ?dv = "if dc \<in> set fc then Some (frow dc) else None"
    from Cons.prems Some row obtain r1 r2 where
      c1: "compare_columns f ?dv frow arow cols = Inr r1" and
      c2: "compare_rows f dc fc arows cols frows = Inr r2" and
      rs: "rs = r1 @ r2"
      by (auto simp: Let_def split: sum.splits)
    from compare_columns_rows[OF c1] Cons.IH[OF c2] rs in_a row
    show ?thesis by simp
  qed
qed

lemma reset_index_labels:
  "fst ` set (df_rows (reset_index df)) = {0..<length (df_rows df)}"
proof -
  have "map fst (zip [0..<length (df_rows df)] (map snd (df_rows df))) = [0..<length (df_rows df)]"
    by simp
  then have "set (map fst (df_rows (reset_index df))) = set [0..<length (df_rows df)]"
    by (simp add: reset_index_def)
  then show ?thesis by (simp only: set_map set_upt)
qed

lemma standardize_columns_labels:
  "map fst (df_rows (standardize_columns m df cl fv)) = map fst (df_rows df)"
  by (simp add: standardize_columns_def split_def comp_def)

lemma prepare_data_labels:
  assumes "prepare_data pivot_table excluded fdf adf = Inr (fstd, astd, cols)"
  shows "fst ` set (df_rows astd) = {0..<length (df_rows astd)} \<and>
         map fst (df_rows fstd) = map fst (df_rows fdf)"
proof -
  from assms obtain piv where piv: "pivot_table adf = Inr piv"
    and a: "astd = standardize_actual_columns (reset_index piv) cols"
    and f: "fstd = standardize_forecast_columns fdf cols"
    by (auto simp: prepare_data_def Let_def split: sum.splits)
  have "map fst (df_rows astd) = map fst (df_rows (reset_index piv))"
    using a by (simp add: standardize_actual_columns_def standardize_columns_labels)
  then have "fst ` set (df_rows astd) = fst ` set (df_rows (reset_index piv))"
    by (metis list.set_map)
  moreover have "length (df_rows astd) = length (df_rows piv)"
    using a by (simp add: standardize_actual_columns_def standardize_columns_def reset_index_def)
  ultimately show ?thesis using f
    by (simp add: reset_index_labels standardize_forecast_columns_def standardize_columns_labels)
qed

text \<open>
  What \<open>_compare_all_metrics\<close> returns on tables whose index labels are distinct.
  Dropping the forecast rows whose label the actual table lacks changes neither the rows
  returned nor the error raised. When the comparison returns, it returns one row for every
  forecast row whose label the actual table has and every column of \<open>all_columns\<close>, in
  that order, dated by the forecast row. After \<open>_prepare_data\<close> the labels of the actual
  table are the positions \<open>0, 1, ...\<close> of its rows, whatever their time keys, and the
  forecast table keeps its labels.
\<close>

lemma compare_all_metrics_rows:
  assumes "distinct (map fst (df_rows forecast_std))"
      and "distinct (map fst (df_rows actual_std))"
  shows
  "compare_all_metrics f date_col forecast_std actual_std all_columns
     = compare_all_metrics f date_col
         (forecast_std\<lparr>df_rows := filter (\<lambda>row. fst row \<in> fst ` set (df_rows actual_std))
                                      (df_rows forecast_std)\<rparr>)
         actual_std all_columns \<and>
   (compare_all_metrics f date_col forecast_std actual_std all_columns = Inr rs \<longrightarrow>
      map (\<lambda>r. (date r, metric r)) rs
        = concat (map (\<lambda>row. map (\<lambda>c. (if date_col \<in> set (df_columns forecast_std)
                                          then Some (snd row date_col) else None, c))
                                 all_columns)
                    (filter (\<lambda>row. fst row \<in> fst ` set (df_rows actual_std))
                       (df_rows forecast_std)))) \<and>
   (prepare_data pivot_table excluded fdf adf = Inr (forecast_std, actual_std, all_columns) \<longrightarrow>
      fst ` set (df_rows actual_std) = {0..<length (df_rows actual_std)} \<and>
      map fst (df_rows forecast_std) = map fst (df_rows fdf))"
proof (intro conjI impI)
  show "compare_all_metrics f date_col forecast_std actual_std all_columns
     = compare_all_metrics f date_col
         (forecast_std\<lparr>df_rows := filter (\<lambda>row. fst row \<in> fst ` set (df_rows actual_std))
                                      (df_rows forecast_std)\<rparr>)
         actual_std all_columns"
    using compare_rows_skips[of f date_col "df_columns forecast_std" "df_rows actual_std"
        all_columns "df_rows forecast_std"]
    by (simp add: compare_all_metrics_def)
next
  assume "compare_all_metrics f date_col forecast_std actual_std all_columns = Inr rs"
  then show "map (\<lambda>r. (date r, metric r)) rs
        = concat (map (\<lambda>row. map (\<lambda>c. (if date_col \<in> set (df_columns forecast_std)
                                          then Some (snd row date_col) else None, c))
                                 all_columns)
                    (filter (\<lambda>row. fst row \<in> fst ` set (df_rows actual_std))
                       (df_rows forecast_std)))"
    unfolding compare_all_metrics_def by (rule compare_rows_rows)
next
  assume p: "prepare_data pivot_table excluded fdf adf = Inr (forecast_std, actual_std, all_columns)"
  from prepare_data_labels[OF p]
  show "fst ` set (df_rows actual_std) = {0..<length (df_rows actual_std)}"
    and "map fst (df_rows forecast_std) = map fst (df_rows fdf)" by simp_all
qed


lemmas engine_defs = detect_results_def validate_inputs_def df_empty_def prepare_data_def
  reset_index_def standardize_forecast_columns_def standardize_actual_columns_def
  standardize_columns_def fill_cell_def compare_all_metrics_def

lemmas comparator_defs = compare_metric_def classify_def deviation_of_def actual_to_float_def
  round_half_even_def round2_def parse_quantiles_def field_at_def float_of_literal_def
  unsigned_literal_def digit_of_def to_double_zero to_double_one to_double_numeral
  QUANTILE_POINT_IDX_def QUANTILE_Q10_IDX_def
  QUANTILE_Q90_IDX_def EXPECTED_QUANTILE_COUNT_def

text \<open>
  Claim C6, the code at the failing input. The forecast rows of the example are those of
  the first and the second of January, under distinct labels; the one row of the
  standardized actual table is that of the third, so no forecast row has a row of its
  time key there. Yet \<open>detect\<close> compares the forecast of the first with the actual value
  of the third and returns a row dated the first.
\<close>

theorem detect_compares_rows_of_different_dates:
  "distinct (map fst (df_rows example_forecast)) \<and>
   map (\<lambda>row. snd row ''date'') (df_rows example_forecast)
     = [Some ''2024-01-01'', Some ''2024-01-02''] \<and>
   map_sum id (\<lambda>(forecast_std, actual_std, all_columns).
        map (\<lambda>row. snd row ''date'') (df_rows actual_std))
     (prepare_data Inr [''date''] example_forecast example_actual)
     = Inr [Some (PyStr ''2024-01-03'')] \<and>
   map_sum id (map (\<lambda>r. (date r, metric r, actual r, status r)))
     (detect_results float_of_literal Inr ''date'' [''date'']
        (DataFrame example_forecast) (DataFrame example_actual))
     = Inr [(Some (Some ''2024-01-01''), ''m'', 95, ''IN_RANGE'')]"
  by (simp add: example_forecast_def example_actual_def engine_defs comparator_defs Let_def
      to_double_zero)

section \<open>Properties of the cumulative-volume selection\<close>

lemma cumsum_from_length: "length (cumsum_from a xs) = length xs"
  by (induction xs arbitrary: a) simp_all

lemma cumsum_from_nth:
  "i < length xs \<Longrightarrow> cumsum_from a xs ! i = a + sum_list (take (Suc i) xs)"
proof (induction xs arbitrary: a i)
  case Nil
  then show ?case by simp
next
  case (Cons x xs)
  show ?case
  proof (cases i)
    case 0
    then show ?thesis by simp
  next
    case (Suc k)
    with Cons.prems have "k < length xs" by simp
    from Cons.IH[OF this, of "a + x"] Suc show ?thesis by simp
  qed
qed

lemma cumsum_length: "length (cumsum xs) = length xs"
  by (simp add: cumsum_def cumsum_from_length)

lemma cumsum_nth: "i < length xs \<Longrightarrow> cumsum xs ! i = sum_list (take (Suc i) xs)"
  by (simp add: cumsum_def cumsum_from_nth)

lemma first_true_Some:
  "first_true bs = Some k \<Longrightarrow> k < length bs \<and> bs ! k \<and> (\<forall>j<k. \<not> bs ! j)"
proof (induction bs arbitrary: k)
  case Nil
  then show ?case by simp
next
  case (Cons b bs)
  show ?case
  proof (cases b)
    case True
    with Cons.prems show ?thesis by simp
  next
    case False
    with Cons.prems obtain k' where k': "first_true bs = Some k'" "k = Suc k'"
      by auto
    from Cons.IH[OF k'(1)] have ih: "k' < length bs" "bs ! k'" "\<forall>j<k'. \<not> bs ! j"
      by simp_all
    have "\<forall>j<k. \<not> (b # bs) ! j"
    proof (intro allI impI)
      fix j assume "j < k"
      then show "\<not> (b # bs) ! j"
        using False ih(3) k'(2) by (cases j) simp_all
    qed
    with ih k'(2) show ?thesis by simp
  qed
qed

lemma sum_list_insort_key: "sum_list (insort_key k (x :: real) xs) = x + sum_list xs"
  by (induction xs) simp_all

lemma sum_list_sort_key: "sum_list (sort_key k (xs :: real list)) = sum_list xs"
  by (induction xs) (simp_all add: sum_list_insort_key)

lemma min_list_le: "x \<in> set xs \<Longrightarrow> min_list xs \<le> (x :: real)"
proof (induction xs)
  case Nil
  then show ?case by simp
next
  case (Cons y ys)
  show ?case
  proof (cases ys)
    case Nil
    with Cons.prems show ?thesis by simp
  next
    case (Cons z zs)
    have m: "min_list (y # ys) = min y (min_list ys)" using Cons by simp
    show ?thesis
    proof (cases "x = y")
      case True
      then show ?thesis unfolding m by simp
    next
      case False
      with Cons.prems have "x \<in> set ys" by simp
      from Cons.IH[OF this] show ?thesis unfolding m by simp
    qed
  qed
qed

lemma first_true_exists:
  "i < length bs \<Longrightarrow> bs ! i \<Longrightarrow> \<exists>k. first_true bs = Some k"
proof (induction bs arbitrary: i)
  case Nil
  then show ?case by simp
next
  case (Cons b bs)
  show ?case
  proof (cases b)
    case True
    then show ?thesis by simp
  next
    case False
    with Cons.prems obtain j where "i = Suc j" by (cases i) auto
    with Cons.prems have "j < length bs" "bs ! j" by simp_all
    from Cons.IH[OF this] False show ?thesis by auto
  qed
qed

lemma sum_list_filter_insort_key:
  "sum_list (filter P (insort_key k (x :: real) xs)) = (if P x then x else 0) + sum_list (filter P xs)"
  by (induction xs) simp_all

lemma sum_list_filter_sort_key:
  "sum_list (filter P (sort_key k (xs :: real list))) = sum_list (filter P xs)"
  by (induction xs) (simp_all add: sum_list_filter_insort_key)

lemma sort_desc_nth_mono:
  assumes "i \<le> j" and "j < length xs"
  shows "sort_key uminus (xs :: real list) ! j \<le> sort_key uminus xs ! i"
proof -
  let ?s = "sort_key uminus xs"
  have s: "sorted (map uminus ?s)" by (rule sorted_sort_key)
  have l: "j < length (map uminus ?s)" using assms(2) by simp
  have "map uminus ?s ! i \<le> map uminus ?s ! j"
    by (rule sorted_nth_mono[OF s assms(1) l])
  then show ?thesis using assms by simp
qed

lemma min_list_mem: "xs \<noteq> [] \<Longrightarrow> min_list xs \<in> set (xs :: real list)"
proof (induction xs)
  case Nil
  then show ?case by simp
next
  case (Cons y ys)
  show ?case
  proof (cases ys)
    case Nil
    then show ?thesis by simp
  next
    case (Cons z zs)
    then have "min_list (y # ys) = min y (min_list ys)" by simp
    moreover have "min_list ys \<in> set ys" using Cons Cons.IH local.Cons by simp
    ultimately show ?thesis by (simp add: min_def)
  qed
qed

lemma sum_list_filter_ge_nonneg:
  "0 \<le> m \<Longrightarrow> 0 \<le> sum_list (filter (\<lambda>v. m \<le> v) (xs :: real list))"
  by (induction xs) simp_all

lemma sum_list_map_filter_value:
  "sum_list (map value (filter (\<lambda>r. m \<le> value r) rows))
     = sum_list (filter (\<lambda>v. m \<le> (v :: real)) (map value rows))"
  by (induction rows) simp_all

text \<open>
  The selection after detection does what the cumulative-volume selection is specified
  to do: over rows of positive total value and a threshold in \<open>(0, 1]\<close> it keeps at least
  one row, and the rows it keeps hold at least the share \<open>threshold_pct\<close> of the total.
\<close>

lemma filter_cumulative_threshold_share:
  assumes ne: "rows \<noteq> []" and tot: "0 < sum_list (map value rows)"
      and thr: "0 < threshold_pct" "threshold_pct \<le> 1"
  shows "filter_cumulative_threshold value rows threshold_pct \<noteq> [] \<and>
         threshold_pct \<le> sum_list (map value (filter_cumulative_threshold value rows threshold_pct))
                           / sum_list (map value rows)"
proof -
  define xs where "xs = map value rows"
  define vs where "vs = sort_key uminus xs"
  define total where "total = sum_list xs"
  define pct where "pct = map (\<lambda>c. c / total) (cumsum vs)"
  define mask where "mask = map (\<lambda>p. threshold_pct \<le> p) pct"
  have total_pos: "0 < total" using tot by (simp add: total_def xs_def)
  have len_vs: "length vs = length rows" by (simp add: vs_def xs_def)
  have len_pos: "0 < length vs" using ne len_vs by simp
  have sum_vs: "sum_list vs = total" by (simp add: vs_def total_def sum_list_sort_key)
  have len_pct: "length pct = length vs" by (simp add: pct_def cumsum_length)
  have pct_nth: "pct ! i = sum_list (take (Suc i) vs) / total" if "i < length vs" for i
    using that by (simp add: pct_def cumsum_length cumsum_nth)
  have last_one: "pct ! (length vs - 1) = 1"
    using len_pos total_pos by (simp add: pct_nth sum_vs)
  have "mask ! (length vs - 1)"
    using len_pos thr(2) last_one by (simp add: mask_def len_pct)
  moreover have "length vs - 1 < length mask" using len_pos by (simp add: mask_def len_pct)
  ultimately obtain k where k: "first_true mask = Some k"
    using first_true_exists by blast
  from first_true_Some[OF k]
  have k0: "k < length mask" and r0: "mask ! k" and b0: "\<forall>j<k. \<not> mask ! j" by simp_all
  have k_len: "k < length vs" using k0 by (simp add: mask_def len_pct)
  have reach: "threshold_pct \<le> pct ! k" using r0 k_len by (simp add: mask_def len_pct)
  define mt where "mt = min_list (take (Suc k) vs)"
  have post_eq: "filter_cumulative_threshold value rows threshold_pct
                   = filter (\<lambda>r. mt \<le> value r) rows"
    using ne total_pos k
    by (simp add: filter_cumulative_threshold_def Let_def xs_def[symmetric]
        total_def[symmetric] vs_def[symmetric] mt_def mask_def pct_def)
  have vk_pos: "0 < vs ! k"
  proof (cases k)
    case 0
    have "0 < pct ! 0" using thr(1) reach 0 by simp
    then have "0 < vs ! 0 / total" using len_pos by (simp add: pct_nth take_Suc_conv_app_nth)
    then show ?thesis using total_pos 0 by (simp add: zero_less_divide_iff)
  next
    case (Suc j)
    then have j: "j < k" by simp
    with b0 have "\<not> mask ! j" by simp
    moreover have jl: "j < length vs" using j k_len by simp
    ultimately have below: "pct ! j < threshold_pct" by (simp add: mask_def len_pct)
    have "pct ! j < pct ! k" using below reach by simp
    then have "sum_list (take (Suc j) vs) < sum_list (take (Suc k) vs)"
      using total_pos by (simp add: pct_nth[OF jl] pct_nth[OF k_len] divide_less_cancel)
    moreover have "take (Suc k) vs = take (Suc j) vs @ [vs ! k]"
      using Suc k_len by (simp add: take_Suc_conv_app_nth)
    ultimately show ?thesis by simp
  qed
  have prefix_ne: "take (Suc k) vs \<noteq> []" using len_pos by (cases vs) simp_all
  have "mt \<in> set (take (Suc k) vs)" unfolding mt_def by (rule min_list_mem[OF prefix_ne])
  then obtain j where j: "j < length (take (Suc k) vs)" "take (Suc k) vs ! j = mt"
    by (auto simp: in_set_conv_nth)
  then have jk: "j \<le> k" by simp
  have "vs ! k \<le> vs ! j"
    unfolding vs_def using jk k_len by (intro sort_desc_nth_mono) (simp_all add: vs_def)
  moreover have "vs ! j = mt" using j by simp
  ultimately have mt_pos: "0 < mt" using vk_pos by simp
  have prefix_kept: "filter (\<lambda>v. mt \<le> v) (take (Suc k) vs) = take (Suc k) vs"
    unfolding mt_def by (simp add: min_list_le)
  have "sum_list (map value (filter (\<lambda>r. mt \<le> value r) rows))
          = sum_list (filter (\<lambda>v. mt \<le> v) vs)"
    by (simp add: sum_list_map_filter_value vs_def xs_def sum_list_filter_sort_key)
  also have "\<dots> = sum_list (filter (\<lambda>v. mt \<le> v) (take (Suc k) vs @ drop (Suc k) vs))"
    by (simp only: append_take_drop_id)
  also have "\<dots> = sum_list (take (Suc k) vs)
                    + sum_list (filter (\<lambda>v. mt \<le> v) (drop (Suc k) vs))"
    by (simp only: filter_append sum_list_append prefix_kept)
  finally have kept_sum: "sum_list (map value (filter (\<lambda>r. mt \<le> value r) rows))
      = sum_list (take (Suc k) vs) + sum_list (filter (\<lambda>v. mt \<le> v) (drop (Suc k) vs))" .
  have rest: "0 \<le> sum_list (filter (\<lambda>v. mt \<le> v) (drop (Suc k) vs))"
    using mt_pos by (intro sum_list_filter_ge_nonneg) simp
  have "pct ! k \<le> sum_list (map value (filter (\<lambda>r. mt \<le> value r) rows)) / total"
    using rest total_pos by (simp add: pct_nth[OF k_len] kept_sum divide_right_mono)
  with reach have share: "threshold_pct
      \<le> sum_list (map value (filter (\<lambda>r. mt \<le> value r) rows)) / total"
    by simp
  have "filter (\<lambda>r. mt \<le> value r) rows \<noteq> []"
  proof
    assume "filter (\<lambda>r. mt \<le> value r) rows = []"
    with share have "threshold_pct \<le> 0" by simp
    with thr(1) show False by simp
  qed
  with share show ?thesis by (simp add: post_eq total_def xs_def)
qed


end
